theory Spec2Isabelle
  imports Complex_Main
begin

section \<open>Data model\<close>

text \<open>
  The program \<^verbatim>\<open>variable_desired_locations.py\<close> reads a compiled variable font
  (\<^verbatim>\<open>ttfont\<close>) and a font-source project (\<^verbatim>\<open>gsfont\<close>), builds an \<^verbatim>\<open>avar\<close> table and
  rewrites the \<^verbatim>\<open>STAT\<close> and \<^verbatim>\<open>fvar\<close> instance records.

  Conventions of the embedding:
  \<^item> Python numbers are idealised as \<open>real\<close>: rounding, signed zeros and NaN are not
    modelled. The only infinite values of the program, the sentinels
    \<^verbatim>\<open>float("Inf")\<close> and \<^verbatim>\<open>-float("Inf")\<close> of the min/max scan, are the constructors
    \<open>PInf\<close> and \<open>MInf\<close> of the type \<open>ext\<close>.
  \<^item> A Python \<^verbatim>\<open>dict\<close> is an association list in insertion order; \<open>dict_set\<close> is
    \<^verbatim>\<open>d[k] = v\<close> (an existing key keeps its position), \<open>dict_get\<close> is \<^verbatim>\<open>d[k]\<close>.
  \<^item> A raised exception is a value of type \<open>error\<close>. The specification's names for
    them are: \<open>IndexError\<close> from the origin-master lookup is \<^verbatim>\<open>MissingOriginMaster\<close>,
    \<open>TypeError\<close> from iterating an absent axis-location declaration is
    \<^verbatim>\<open>MissingAxisLocation\<close>, \<open>KeyError\<close> from the axis-name lookup is
    \<^verbatim>\<open>UnknownAxisName\<close>, \<open>KeyError\<close> from the instance-name lookup is
    \<^verbatim>\<open>InstanceNameMismatch\<close>, and \<open>ZeroDivisionError\<close> from the normalizer is
    \<^verbatim>\<open>DegenerateAxisRange\<close>.
  \<^item> \<^verbatim>\<open>create_avar\<close> assigns the new table only in its last statement, so it returns
    \<open>error + ttfont\<close>. \<^verbatim>\<open>update_stat\<close> and \<^verbatim>\<open>update_fvar\<close> mutate the font while they
    run, so they return the exception (if any) together with the font as the
    exception leaves it.
  \<^item> The tables \<^verbatim>\<open>fvar\<close> and \<^verbatim>\<open>name\<close> are part of every variable font and are taken
    as present. \<^verbatim>\<open>STAT\<close> is optional in a font, and so are its two sub-records: the
    field \<open>stat\<close> is \<open>None\<close> for a font without the table (\<^verbatim>\<open>ttfont["STAT"]\<close> raises
    \<^verbatim>\<open>KeyError\<close>), and \<open>DesignAxisRecord\<close> and \<open>AxisValueArray\<close> are \<open>None\<close> where the
    table has a null offset there (an attribute access on \<^verbatim>\<open>None\<close> raises
    \<^verbatim>\<open>AttributeError\<close>). \<open>DesignAxisRecord\<close> holds the \<^verbatim>\<open>AxisTag\<close> of each record of
    \<^verbatim>\<open>DesignAxisRecord.Axis\<close>, \<open>AxisValueArray\<close> the list \<^verbatim>\<open>AxisValueArray.AxisValue\<close>.
\<close>

datatype error =
  IndexError | KeyError | TypeError | ValueError | ZeroDivisionError | AttributeError

datatype ext = MInf | Fin real | PInf

record gs_axis =
  axis_name :: string
  axisTag :: string

record gs_master =
  master_id :: string
  master_axes :: "real list"

record gs_instance =
  instance_name :: string
  instance_axes :: "real list"
  axis_location :: "(string \<times> real) list option"

record gsfont =
  axes :: "gs_axis list"
  masters :: "gs_master list"
  instances :: "gs_instance list"
  variable_font_origin :: "string option"

record axis_values =
  ax_max :: ext
  ax_min :: ext
  ax_def :: real

record fvar_axis =
  fvar_axisTag :: string
  minValue :: real
  defaultValue :: real
  maxValue :: real

record fvar_instance =
  subfamilyNameID :: nat
  coordinates :: "(string \<times> real) list"

record stat_axis_value =
  av_Format :: nat
  av_AxisIndex :: nat
  av_Flags :: nat
  av_ValueNameID :: nat
  av_Value :: real

record stat_table =
  DesignAxisRecord :: "string list option"
  AxisValueArray :: "stat_axis_value list option"

record ttfont =
  fvar_axes :: "fvar_axis list"
  fvar_instances :: "fvar_instance list"
  name_table :: "(nat \<times> string) list"
  stat :: "stat_table option"
  avar :: "(string \<times> (real \<times> real) list) list option"

section \<open>Python dictionaries\<close>

fun dict_set :: "('k \<times> 'v) list \<Rightarrow> 'k \<Rightarrow> 'v \<Rightarrow> ('k \<times> 'v) list" where
  "dict_set [] k v = [(k, v)]"
| "dict_set ((k', v') # d) k v =
     (if k' = k then (k, v) # d else (k', v') # dict_set d k v)"

definition dict_get :: "('k \<times> 'v) list \<Rightarrow> 'k \<Rightarrow> error + 'v" where
  "dict_get d k = (case map_of d k of None \<Rightarrow> Inl KeyError | Some v \<Rightarrow> Inr v)"

text \<open>A dict comprehension \<^verbatim>\<open>{k: v for ...}\<close> over pairs that cannot fail, and a run of
  assignments \<^verbatim>\<open>d[k] = v\<close>.\<close>

definition dict_sets :: "('k \<times> 'v) list \<Rightarrow> ('k \<times> 'v) list \<Rightarrow> ('k \<times> 'v) list" where
  "dict_sets d kvs = foldl (\<lambda>d' (k, v). dict_set d' k v) d kvs"

definition dict_of :: "('k \<times> 'v) list \<Rightarrow> ('k \<times> 'v) list" where
  "dict_of kvs = dict_sets [] kvs"

section \<open>Resolving instance locations\<close>

text \<open>\<^verbatim>\<open>get_instance_locations\<close>: the declared (desired) locations. The inner function is
  the dict comprehension over \<^verbatim>\<open>instance.customParameters["Axis Location"]\<close>; an entry
  is the pair of its \<^verbatim>\<open>"Axis"\<close> and \<^verbatim>\<open>"Location"\<close> values. A missing declaration is
  \<^verbatim>\<open>None\<close>, and iterating it raises \<^verbatim>\<open>TypeError\<close>.\<close>

fun axis_location_dict ::
  "(string \<times> string) list \<Rightarrow> (string \<times> real) list \<Rightarrow> (string \<times> real) list
    \<Rightarrow> error + (string \<times> real) list" where
  "axis_location_dict axes_tags [] d = Inr d"
| "axis_location_dict axes_tags ((axis, location) # rest) d =
     (case dict_get axes_tags axis of
        Inl e \<Rightarrow> Inl e
      | Inr tag \<Rightarrow> axis_location_dict axes_tags rest (dict_set d tag location))"

fun instance_locations_loop ::
  "(string \<times> string) list \<Rightarrow> gs_instance list \<Rightarrow> (string \<times> (string \<times> real) list) list
    \<Rightarrow> error + (string \<times> (string \<times> real) list) list" where
  "instance_locations_loop axes_tags [] instance_locations = Inr instance_locations"
| "instance_locations_loop axes_tags (inst # rest) instance_locations =
     (case axis_location inst of
        None \<Rightarrow> Inl TypeError
      | Some decl \<Rightarrow>
          (case axis_location_dict axes_tags decl [] of
             Inl e \<Rightarrow> Inl e
           | Inr locs \<Rightarrow>
               instance_locations_loop axes_tags rest
                 (dict_set instance_locations (instance_name inst) locs)))"

definition get_instance_locations ::
  "gsfont \<Rightarrow> error + (string \<times> (string \<times> real) list) list" where
  "get_instance_locations g =
     (let axes_tags = dict_of (map (\<lambda>a. (axis_name a, axisTag a)) (axes g))
      in instance_locations_loop axes_tags (instances g) [])"

text \<open>\<^verbatim>\<open>get_gvar_instance_locations\<close>: the current locations, the positional
  interpolation coordinates of the project, zero-filled.\<close>

definition gvar_instance_location :: "string list \<Rightarrow> gs_instance \<Rightarrow> (string \<times> real) list" where
  "gvar_instance_location axes_tags inst =
     dict_sets (dict_of (map (\<lambda>axis_tag. (axis_tag, 0)) axes_tags))
       (zip axes_tags (take (length axes_tags) (instance_axes inst)))"

definition get_gvar_instance_locations ::
  "gsfont \<Rightarrow> (string \<times> (string \<times> real) list) list" where
  "get_gvar_instance_locations g =
     (let axes_tags = map axisTag (axes g)
      in dict_of (map (\<lambda>inst. (instance_name inst, gvar_instance_location axes_tags inst))
                      (instances g)))"

section \<open>Resolving axis ranges\<close>

definition get_axes_values :: "ttfont \<Rightarrow> (string \<times> axis_values) list" where
  "get_axes_values t =
     dict_of (map (\<lambda>a. (fvar_axisTag a,
                        \<lparr>ax_max = Fin (maxValue a), ax_min = Fin (minValue a),
                         ax_def = defaultValue a\<rparr>))
                  (fvar_axes t))"

text \<open>\<^verbatim>\<open>try: value = xs[i]  except IndexError: pass\<close> after \<^verbatim>\<open>value = 0.0\<close>.\<close>

definition axis_coordinate :: "real list \<Rightarrow> nat \<Rightarrow> real" where
  "axis_coordinate xs i = (if i < length xs then xs ! i else 0)"

fun ext_less :: "ext \<Rightarrow> ext \<Rightarrow> bool" where
  "ext_less MInf MInf = False"
| "ext_less MInf _ = True"
| "ext_less (Fin a) (Fin b) = (a < b)"
| "ext_less (Fin a) PInf = True"
| "ext_less (Fin a) MInf = False"
| "ext_less PInf _ = False"

fun scan_masters :: "nat \<Rightarrow> gs_master list \<Rightarrow> ext \<times> ext \<Rightarrow> ext \<times> ext" where
  "scan_masters axis_index [] (max_value, min_value) = (max_value, min_value)"
| "scan_masters axis_index (master # rest) (max_value, min_value) =
     (let v = axis_coordinate (master_axes master) axis_index;
          max_value' = (if ext_less max_value (Fin v) then Fin v else max_value);
          min_value' = (if ext_less (Fin v) min_value then Fin v else min_value)
      in scan_masters axis_index rest (max_value', min_value'))"

fun source_axes_loop ::
  "gs_master \<Rightarrow> gs_master list \<Rightarrow> (nat \<times> string) list \<Rightarrow> (string \<times> axis_values) list
    \<Rightarrow> (string \<times> axis_values) list" where
  "source_axes_loop default_master ms [] axes_values = axes_values"
| "source_axes_loop default_master ms ((axis_index, axis_tag) # rest) axes_values =
     (let default_value = axis_coordinate (master_axes default_master) axis_index;
          (max_value, min_value) = scan_masters axis_index ms (MInf, PInf)
      in source_axes_loop default_master ms rest
           (dict_set axes_values axis_tag
              \<lparr>ax_max = max_value, ax_min = min_value, ax_def = default_value\<rparr>))"

definition get_source_axes_values :: "gsfont \<Rightarrow> error + (string \<times> axis_values) list" where
  "get_source_axes_values g =
     (let axes_tags = map axisTag (axes g)
      in case filter (\<lambda>m. Some (master_id m) = variable_font_origin g) (masters g) of
           [] \<Rightarrow> Inl IndexError
         | default_master # _ \<Rightarrow>
             Inr (source_axes_loop default_master (masters g) (enumerate 0 axes_tags) []))"

section \<open>Default normalization\<close>

text \<open>Python's \<^verbatim>\<open>/\<close> raises \<^verbatim>\<open>ZeroDivisionError\<close> on a zero divisor; a finite value
  divided by an infinite one is zero.\<close>

fun py_truediv :: "real \<Rightarrow> ext \<Rightarrow> error + real" where
  "py_truediv x (Fin y) = (if y = 0 then Inl ZeroDivisionError else Inr (x / y))"
| "py_truediv x MInf = Inr 0"
| "py_truediv x PInf = Inr 0"

fun real_minus_ext :: "real \<Rightarrow> ext \<Rightarrow> ext" where
  "real_minus_ext a (Fin b) = Fin (a - b)"
| "real_minus_ext a MInf = PInf"
| "real_minus_ext a PInf = MInf"

fun ext_minus_real :: "ext \<Rightarrow> real \<Rightarrow> ext" where
  "ext_minus_real (Fin a) b = Fin (a - b)"
| "ext_minus_real MInf b = MInf"
| "ext_minus_real PInf b = PInf"

definition defaultNormalizedValue :: "axis_values \<Rightarrow> real \<Rightarrow> error + real" where
  "defaultNormalizedValue axis instanceValue =
     (if instanceValue < ax_def axis then
        py_truediv (- (ax_def axis - instanceValue)) (real_minus_ext (ax_def axis) (ax_min axis))
      else if instanceValue > ax_def axis then
        py_truediv (instanceValue - ax_def axis) (ext_minus_real (ax_max axis) (ax_def axis))
      else Inr 0)"

section \<open>Building the avar table\<close>

text \<open>The body of the inner loop of \<^verbatim>\<open>create_avar\<close> for one axis and one entry of
  \<^verbatim>\<open>current_locations\<close>, up to the assignment: it returns the pair (key, value) that
  the assignment \<^verbatim>\<open>curve[key] = value\<close> then stores. With \<^verbatim>\<open>verbose\<close> the \<^verbatim>\<open>print\<close>
  evaluates both lookups first. In the assignment Python evaluates the right-hand
  side before the subscript.\<close>

definition instance_point ::
  "bool \<Rightarrow> string \<Rightarrow> axis_values \<Rightarrow> (string \<times> axis_values) list
    \<Rightarrow> (string \<times> (string \<times> real) list) list \<Rightarrow> string \<Rightarrow> (string \<times> real) list
    \<Rightarrow> error + (real \<times> real)" where
  "instance_point verbose axis_tag axis_vals source_axes_values desired_locations
      instance_nm current_location =
     (case (if verbose then
              (case dict_get current_location axis_tag of
                 Inl e \<Rightarrow> Inl e
               | Inr _ \<Rightarrow>
                   (case dict_get desired_locations instance_nm of
                      Inl e \<Rightarrow> Inl e
                    | Inr dl \<Rightarrow> dict_get dl axis_tag))
            else Inr 0) of
        Inl e \<Rightarrow> Inl e
      | Inr _ \<Rightarrow>
     (case dict_get source_axes_values axis_tag of
        Inl e \<Rightarrow> Inl e
      | Inr source_range \<Rightarrow>
     (case dict_get current_location axis_tag of
        Inl e \<Rightarrow> Inl e
      | Inr current \<Rightarrow>
     (case defaultNormalizedValue source_range current of
        Inl e \<Rightarrow> Inl e
      | Inr val \<Rightarrow>
     (case dict_get desired_locations instance_nm of
        Inl e \<Rightarrow> Inl e
      | Inr dl \<Rightarrow>
     (case dict_get dl axis_tag of
        Inl e \<Rightarrow> Inl e
      | Inr desired \<Rightarrow>
     (case defaultNormalizedValue axis_vals desired of
        Inl e \<Rightarrow> Inl e
      | Inr key \<Rightarrow> Inr (key, val))))))))"

fun curve_loop ::
  "bool \<Rightarrow> string \<Rightarrow> axis_values \<Rightarrow> (string \<times> axis_values) list
    \<Rightarrow> (string \<times> (string \<times> real) list) list \<Rightarrow> (string \<times> (string \<times> real) list) list
    \<Rightarrow> (real \<times> real) list \<Rightarrow> error + (real \<times> real) list" where
  "curve_loop verbose axis_tag axis_vals sav dls [] curve = Inr curve"
| "curve_loop verbose axis_tag axis_vals sav dls ((instance_nm, current_location) # rest) curve =
     (case instance_point verbose axis_tag axis_vals sav dls instance_nm current_location of
        Inl e \<Rightarrow> Inl e
      | Inr (key, val) \<Rightarrow>
          curve_loop verbose axis_tag axis_vals sav dls rest (dict_set curve key val))"

text \<open>The outer loop. \<^verbatim>\<open>avar.segments[axis_tag]\<close> and \<^verbatim>\<open>curve\<close> are one object; the
  tags of \<^verbatim>\<open>axes_values\<close> are distinct and \<^verbatim>\<open>segments\<close> starts empty, so storing the
  finished curve under the tag gives the same dictionary.\<close>

fun axes_loop ::
  "bool \<Rightarrow> (string \<times> axis_values) list \<Rightarrow> (string \<times> (string \<times> real) list) list
    \<Rightarrow> (string \<times> (string \<times> real) list) list \<Rightarrow> (string \<times> axis_values) list
    \<Rightarrow> (string \<times> (real \<times> real) list) list \<Rightarrow> error + (string \<times> (real \<times> real) list) list" where
  "axes_loop verbose sav dls cls [] segments = Inr segments"
| "axes_loop verbose sav dls cls ((axis_tag, axis_vals) # rest) segments =
     (case curve_loop verbose axis_tag axis_vals sav dls cls [(-1, -1), (0, 0), (1, 1)] of
        Inl e \<Rightarrow> Inl e
      | Inr curve \<Rightarrow> axes_loop verbose sav dls cls rest (dict_set segments axis_tag curve))"

definition create_avar :: "ttfont \<Rightarrow> gsfont \<Rightarrow> bool \<Rightarrow> error + ttfont" where
  "create_avar t g verbose =
     (let axes_values = get_axes_values t in
      case get_source_axes_values g of
        Inl e \<Rightarrow> Inl e
      | Inr source_axes_values \<Rightarrow>
     (let current_locations = get_gvar_instance_locations g in
      case get_instance_locations g of
        Inl e \<Rightarrow> Inl e
      | Inr desired_locations \<Rightarrow>
          if instances g = [] then Inl ValueError
          else
            (case axes_loop verbose source_axes_values desired_locations current_locations
                    axes_values [] of
               Inl e \<Rightarrow> Inl e
             | Inr segments \<Rightarrow> Inr (t\<lparr>avar := Some segments\<rparr>))))"

section \<open>Rewriting instance metadata\<close>

text \<open>\<^verbatim>\<open>ttfont["name"].getName(id, 3, 1).toUnicode()\<close>: \<open>name_table\<close> holds the
  Windows/Unicode records; \<^verbatim>\<open>getName\<close> returns \<^verbatim>\<open>None\<close> for a missing record, and the
  method call on it raises \<^verbatim>\<open>AttributeError\<close>.\<close>

definition get_name :: "ttfont \<Rightarrow> nat \<Rightarrow> error + string" where
  "get_name t nid = (case map_of (name_table t) nid of
                       None \<Rightarrow> Inl AttributeError | Some s \<Rightarrow> Inr s)"

fun stat_axes_loop ::
  "(string \<times> (string \<times> real) list) list \<Rightarrow> string \<Rightarrow> nat \<Rightarrow> (nat \<times> string) list
    \<Rightarrow> stat_axis_value list \<Rightarrow> error option \<times> stat_axis_value list" where
  "stat_axes_loop dls instance_nm nid [] vals = (None, vals)"
| "stat_axes_loop dls instance_nm nid ((axisIndex, axis_tag) # rest) vals =
     (case dict_get dls instance_nm of
        Inl e \<Rightarrow> (Some e, vals)
      | Inr dl \<Rightarrow>
          (case map_of dl axis_tag of
             None \<Rightarrow> stat_axes_loop dls instance_nm nid rest vals
           | Some v \<Rightarrow>
               stat_axes_loop dls instance_nm nid rest
                 (vals @ [\<lparr>av_Format = 1, av_AxisIndex = axisIndex, av_Flags = 0,
                           av_ValueNameID = nid, av_Value = v\<rparr>])))"

fun stat_instances_loop ::
  "ttfont \<Rightarrow> (string \<times> (string \<times> real) list) list \<Rightarrow> string list \<Rightarrow> fvar_instance list
    \<Rightarrow> stat_axis_value list \<Rightarrow> error option \<times> stat_axis_value list" where
  "stat_instances_loop t dls axes_tags [] vals = (None, vals)"
| "stat_instances_loop t dls axes_tags (inst # rest) vals =
     (case get_name t (subfamilyNameID inst) of
        Inl e \<Rightarrow> (Some e, vals)
      | Inr instance_nm \<Rightarrow>
          (case stat_axes_loop dls instance_nm (subfamilyNameID inst)
                  (enumerate 0 axes_tags) vals of
             (Some e, vals') \<Rightarrow> (Some e, vals')
           | (None, vals') \<Rightarrow> stat_instances_loop t dls axes_tags rest vals'))"

text \<open>\<^verbatim>\<open>update_stat\<close>: \<^verbatim>\<open>ttfont["STAT"]\<close> raises \<^verbatim>\<open>KeyError\<close> without the table; reading
  \<^verbatim>\<open>stat.DesignAxisRecord.Axis\<close> and then assigning \<^verbatim>\<open>stat.AxisValueArray.AxisValue = []\<close>
  raise \<^verbatim>\<open>AttributeError\<close> where the sub-record is \<^verbatim>\<open>None\<close>. The assignment empties the
  array before the loop; the loop appends to it.\<close>

definition update_stat :: "ttfont \<Rightarrow> gsfont \<Rightarrow> error option \<times> ttfont" where
  "update_stat t g =
     (case get_instance_locations g of
        Inl e \<Rightarrow> (Some e, t)
      | Inr desired_locations \<Rightarrow>
     (case stat t of
        None \<Rightarrow> (Some KeyError, t)
      | Some st \<Rightarrow>
     (case DesignAxisRecord st of
        None \<Rightarrow> (Some AttributeError, t)
      | Some axes_tags \<Rightarrow>
     (case AxisValueArray st of
        None \<Rightarrow> (Some AttributeError, t)
      | Some _ \<Rightarrow>
          (case stat_instances_loop t desired_locations axes_tags (fvar_instances t) [] of
             (e, vals) \<Rightarrow> (e, t\<lparr>stat := Some (st\<lparr>AxisValueArray := Some vals\<rparr>)\<rparr>))))))"

text \<open>\<^verbatim>\<open>update_fvar\<close>: the inner loop runs over the keys of \<^verbatim>\<open>instance.coordinates\<close> and
  assigns to the same dictionary.\<close>

fun coordinates_loop ::
  "(string \<times> (string \<times> real) list) list \<Rightarrow> string \<Rightarrow> string list \<Rightarrow> (string \<times> real) list
    \<Rightarrow> error option \<times> (string \<times> real) list" where
  "coordinates_loop dls instance_nm [] coords = (None, coords)"
| "coordinates_loop dls instance_nm (axis_tag # rest) coords =
     (case dict_get dls instance_nm of
        Inl e \<Rightarrow> (Some e, coords)
      | Inr dl \<Rightarrow>
          (case dict_get dl axis_tag of
             Inl e \<Rightarrow> (Some e, coords)
           | Inr v \<Rightarrow> coordinates_loop dls instance_nm rest (dict_set coords axis_tag v)))"

fun fvar_instances_loop ::
  "ttfont \<Rightarrow> (string \<times> (string \<times> real) list) list \<Rightarrow> fvar_instance list
    \<Rightarrow> error option \<times> fvar_instance list" where
  "fvar_instances_loop t dls [] = (None, [])"
| "fvar_instances_loop t dls (inst # rest) =
     (case get_name t (subfamilyNameID inst) of
        Inl e \<Rightarrow> (Some e, inst # rest)
      | Inr instance_nm \<Rightarrow>
          (case coordinates_loop dls instance_nm (map fst (coordinates inst)) (coordinates inst) of
             (Some e, coords) \<Rightarrow> (Some e, inst\<lparr>coordinates := coords\<rparr> # rest)
           | (None, coords) \<Rightarrow>
               (case fvar_instances_loop t dls rest of
                  (e, rest') \<Rightarrow> (e, inst\<lparr>coordinates := coords\<rparr> # rest'))))"

definition update_fvar :: "ttfont \<Rightarrow> gsfont \<Rightarrow> error option \<times> ttfont" where
  "update_fvar t g =
     (case get_instance_locations g of
        Inl e \<Rightarrow> (Some e, t)
      | Inr desired_locations \<Rightarrow>
          (case fvar_instances_loop t desired_locations (fvar_instances t) of
             (e, insts) \<Rightarrow> (e, t\<lparr>fvar_instances := insts\<rparr>)))"

section \<open>Sparse masters made explicit\<close>

text \<open>The comparison object for the zero fallback of \<^verbatim>\<open>get_source_axes_values\<close>: a
  master whose coordinate list is shorter than \<open>n\<close> is given explicit \<open>0.0\<close>
  coordinates up to length \<open>n\<close>. This function is not part of the program.\<close>

definition explicit_zeros :: "nat \<Rightarrow> gs_master \<Rightarrow> gs_master" where
  "explicit_zeros n m =
     m\<lparr>master_axes := master_axes m @ replicate (n - length (master_axes m)) 0\<rparr>"

section \<open>Example fonts\<close>

text \<open>A weight axis with the range 100, 400, 900 on both sides. \<open>bold_gsfont c d\<close> is a
  project with three masters at 100, 400 (the origin) and 900 and one instance
  \<^verbatim>\<open>Bold\<close> whose interpolation coordinate is \<open>c\<close> and whose declared location is \<open>d\<close>.
  \<open>bold_ttfont\<close> is a binary with that one instance; \<open>mismatch_ttfont\<close> has a second
  instance \<^verbatim>\<open>Black\<close> that the project does not have, and \<open>black_first_ttfont\<close> has the
  two instances in the other order. In \<open>flat_gsfont\<close> all masters sit at 400. In
  \<open>sparse_gsfont\<close> the first master has no width coordinate.\<close>

definition wght_range :: axis_values where
  "wght_range = \<lparr>ax_max = Fin 900, ax_min = Fin 100, ax_def = 400\<rparr>"

definition bold_gsfont :: "real \<Rightarrow> real \<Rightarrow> gsfont" where
  "bold_gsfont current desired =
     \<lparr>axes = [\<lparr>axis_name = ''Weight'', axisTag = ''wght''\<rparr>],
      masters = [\<lparr>master_id = ''m1'', master_axes = [100]\<rparr>,
                 \<lparr>master_id = ''m2'', master_axes = [400]\<rparr>,
                 \<lparr>master_id = ''m3'', master_axes = [900]\<rparr>],
      instances = [\<lparr>instance_name = ''Bold'', instance_axes = [current],
                    axis_location = Some [(''Weight'', desired)]\<rparr>],
      variable_font_origin = Some ''m2''\<rparr>"

definition flat_gsfont :: gsfont where
  "flat_gsfont =
     \<lparr>axes = [\<lparr>axis_name = ''Weight'', axisTag = ''wght''\<rparr>],
      masters = [\<lparr>master_id = ''m1'', master_axes = [400]\<rparr>,
                 \<lparr>master_id = ''m2'', master_axes = [400]\<rparr>],
      instances = [\<lparr>instance_name = ''Bold'', instance_axes = [400],
                    axis_location = Some [(''Weight'', 700)]\<rparr>],
      variable_font_origin = Some ''m1''\<rparr>"

definition sparse_gsfont :: gsfont where
  "sparse_gsfont =
     \<lparr>axes = [\<lparr>axis_name = ''Weight'', axisTag = ''wght''\<rparr>,
              \<lparr>axis_name = ''Width'', axisTag = ''wdth''\<rparr>],
      masters = [\<lparr>master_id = ''m1'', master_axes = [100]\<rparr>,
                 \<lparr>master_id = ''m2'', master_axes = [900, 50]\<rparr>],
      instances = [],
      variable_font_origin = Some ''m1''\<rparr>"

definition bold_ttfont :: ttfont where
  "bold_ttfont =
     \<lparr>fvar_axes = [\<lparr>fvar_axisTag = ''wght'', minValue = 100, defaultValue = 400,
                    maxValue = 900\<rparr>],
      fvar_instances = [\<lparr>subfamilyNameID = 256, coordinates = [(''wght'', 700)]\<rparr>],
      name_table = [(256, ''Bold'')],
      stat = Some \<lparr>DesignAxisRecord = Some [''wght''],
                   AxisValueArray =
                     Some [\<lparr>av_Format = 1, av_AxisIndex = 0, av_Flags = 0,
                            av_ValueNameID = 256, av_Value = 700\<rparr>]\<rparr>,
      avar = None\<rparr>"

definition mismatch_ttfont :: ttfont where
  "mismatch_ttfont =
     \<lparr>fvar_axes = [\<lparr>fvar_axisTag = ''wght'', minValue = 100, defaultValue = 400,
                    maxValue = 900\<rparr>],
      fvar_instances = [\<lparr>subfamilyNameID = 256, coordinates = [(''wght'', 700)]\<rparr>,
                        \<lparr>subfamilyNameID = 257, coordinates = [(''wght'', 900)]\<rparr>],
      name_table = [(256, ''Bold''), (257, ''Black'')],
      stat = Some \<lparr>DesignAxisRecord = Some [''wght''],
                   AxisValueArray =
                     Some [\<lparr>av_Format = 1, av_AxisIndex = 0, av_Flags = 0,
                            av_ValueNameID = 256, av_Value = 700\<rparr>,
                           \<lparr>av_Format = 1, av_AxisIndex = 0, av_Flags = 0,
                            av_ValueNameID = 257, av_Value = 900\<rparr>]\<rparr>,
      avar = None\<rparr>"

definition black_first_ttfont :: ttfont where
  "black_first_ttfont =
     mismatch_ttfont\<lparr>fvar_instances :=
       [\<lparr>subfamilyNameID = 257, coordinates = [(''wght'', 900)]\<rparr>,
        \<lparr>subfamilyNameID = 256, coordinates = [(''wght'', 700)]\<rparr>]\<rparr>"

section \<open>Properties of the dictionary operations\<close>

lemma map_of_dict_set: "map_of (dict_set d k v) = (map_of d)(k \<mapsto> v)"
  by (induction d k v rule: dict_set.induct) (auto simp: fun_eq_iff)

lemma keys_dict_set: "fst ` set (dict_set d k v) = insert k (fst ` set d)"
  by (induction d k v rule: dict_set.induct) auto

lemma set_dict_set: "set (dict_set d k v) \<subseteq> insert (k, v) (set d)"
  by (induction d k v rule: dict_set.induct) auto

lemma distinct_dict_set: "distinct (map fst d) \<Longrightarrow> distinct (map fst (dict_set d k v))"
  by (induction d k v rule: dict_set.induct) (auto simp: keys_dict_set)

lemma keys_dict_set_existing: "k \<in> fst ` set d \<Longrightarrow> map fst (dict_set d k v) = map fst d"
  by (induction d) force+

lemma dict_set_fresh: "k \<notin> fst ` set d \<Longrightarrow> dict_set d k v = d @ [(k, v)]"
  by (induction d) auto

lemma identity_pair_dict_set:
  "(a, a) \<in> set d \<Longrightarrow> (a, a) \<in> set (dict_set d k k)"
  by (induction d) auto


lemma dict_sets_Nil: "dict_sets d [] = d"
  by (simp add: dict_sets_def)

lemma dict_sets_Cons: "dict_sets d ((k, v) # kvs) = dict_sets (dict_set d k v) kvs"
  by (simp add: dict_sets_def)

lemma distinct_dict_sets: "distinct (map fst d) \<Longrightarrow> distinct (map fst (dict_sets d kvs))"
  by (induction kvs arbitrary: d) (auto simp: dict_sets_Nil dict_sets_Cons distinct_dict_set)

lemma distinct_dict_of: "distinct (map fst (dict_of kvs))"
  by (simp add: dict_of_def distinct_dict_sets)

lemma dict_sets_fresh:
  "distinct (map fst kvs) \<Longrightarrow> fst ` set d \<inter> fst ` set kvs = {}
   \<Longrightarrow> dict_sets d kvs = d @ kvs"
proof (induction kvs arbitrary: d)
  case Nil
  then show ?case by (simp add: dict_sets_Nil)
next
  case (Cons p kvs)
  obtain k v where p: "p = (k, v)" by (cases p)
  from Cons.prems have fresh: "k \<notin> fst ` set d" by (auto simp: p)
  have "fst ` set (d @ [(k, v)]) \<inter> fst ` set kvs = {}"
    using Cons.prems by (auto simp: p)
  with Cons.IH[of "d @ [(k, v)]"] Cons.prems
  have "dict_sets (d @ [(k, v)]) kvs = (d @ [(k, v)]) @ kvs" by simp
  with fresh show ?case by (simp add: p dict_sets_Cons dict_set_fresh)
qed

lemma dict_of_distinct: "distinct (map fst kvs) \<Longrightarrow> dict_of kvs = kvs"
  using dict_sets_fresh[of kvs "[]"] by (simp add: dict_of_def)

lemma map_of_dict_sets_notin:
  "k \<notin> fst ` set pts \<Longrightarrow> map_of (dict_sets d pts) k = map_of d k"
  by (induction pts arbitrary: d) (auto simp: dict_sets_Nil dict_sets_Cons map_of_dict_set)

lemma map_of_dict_sets_last:
  "j < length pts \<Longrightarrow> pts ! j = (k, v)
   \<Longrightarrow> \<forall>j'. j < j' \<and> j' < length pts \<longrightarrow> fst (pts ! j') \<noteq> k
   \<Longrightarrow> map_of (dict_sets d pts) k = Some v"
proof (induction pts arbitrary: d j)
  case Nil
  then show ?case by simp
next
  case (Cons p ps)
  obtain k0 v0 where p: "p = (k0, v0)" by (cases p)
  show ?case
  proof (cases j)
    case 0
    with Cons.prems p have kv: "k0 = k" "v0 = v" by auto
    have "k \<notin> fst ` set ps"
    proof
      assume "k \<in> fst ` set ps"
      then obtain x where "x \<in> set ps" "fst x = k" by auto
      then obtain n where "n < length ps" "ps ! n = x" by (auto simp: in_set_conv_nth)
      with Cons.prems(3)[rule_format, of "Suc n"] 0 \<open>fst x = k\<close> show False by auto
    qed
    then show ?thesis
      by (simp add: p kv dict_sets_Cons map_of_dict_sets_notin map_of_dict_set)
  next
    case (Suc n)
    with Cons.prems have n: "n < length ps" "ps ! n = (k, v)" by auto
    have later: "\<forall>j'. n < j' \<and> j' < length ps \<longrightarrow> fst (ps ! j') \<noteq> k"
    proof (intro allI impI)
      fix j' assume "n < j' \<and> j' < length ps"
      with Cons.prems(3)[rule_format, of "Suc j'"] Suc show "fst (ps ! j') \<noteq> k" by auto
    qed
    from Cons.IH[OF n later] show ?thesis by (simp add: p dict_sets_Cons)
  qed
qed

lemma map_of_dict_sets:
  "map_of (dict_sets d pts) k
     = (case map_of (rev pts) k of Some v \<Rightarrow> Some v | None \<Rightarrow> map_of d k)"
proof (induction pts arbitrary: d)
  case Nil
  then show ?case by (simp add: dict_sets_Nil)
next
  case (Cons p pts)
  obtain k0 v0 where p: "p = (k0, v0)" by (cases p)
  show ?case
    by (simp add: p dict_sets_Cons Cons.IH map_of_dict_set map_add_def
             split: option.splits)
qed

lemma keys_dict_sets: "fst ` set (dict_sets d pts) = fst ` set d \<union> fst ` set pts"
proof (induction pts arbitrary: d)
  case Nil
  then show ?case by (simp add: dict_sets_Nil)
next
  case (Cons p ps)
  obtain k v where p: "p = (k, v)" by (cases p)
  have "fst ` set (dict_sets d (p # ps)) = insert k (fst ` set d) \<union> fst ` set ps"
    by (simp only: p dict_sets_Cons Cons.IH keys_dict_set)
  then show ?case by (simp add: p)
qed

lemma set_dict_sets: "set (dict_sets d pts) \<subseteq> set d \<union> set pts"
proof (induction pts arbitrary: d)
  case Nil
  then show ?case by (simp add: dict_sets_Nil)
next
  case (Cons p ps)
  obtain k v where p: "p = (k, v)" by (cases p)
  from Cons.IH[of "dict_set d k v"] set_dict_set[of d k v] show ?case
    by (auto simp: p dict_sets_Cons)
qed

lemma identity_pair_dict_sets:
  "(a, a) \<in> set d \<Longrightarrow> \<forall>(k, v)\<in>set pts. k = v \<Longrightarrow> (a, a) \<in> set (dict_sets d pts)"
  by (induction pts arbitrary: d)
     (auto simp: dict_sets_Nil dict_sets_Cons identity_pair_dict_set)

section \<open>The example fonts, evaluated\<close>

lemmas example_defs = wght_range_def bold_gsfont_def flat_gsfont_def bold_ttfont_def
  mismatch_ttfont_def black_first_ttfont_def

lemmas resolver_defs = get_axes_values_def get_source_axes_values_def
  get_gvar_instance_locations_def gvar_instance_location_def get_instance_locations_def
  dict_of_def dict_sets_def dict_get_def axis_coordinate_def enumerate_eq_zip

lemma bold_axes_values: "get_axes_values bold_ttfont = [(''wght'', wght_range)]"
  by (simp add: example_defs resolver_defs)

lemma bold_source_axes_values:
  "get_source_axes_values (bold_gsfont c d) = Inr [(''wght'', wght_range)]"
  by (simp add: example_defs resolver_defs)

lemma bold_current_locations:
  "get_gvar_instance_locations (bold_gsfont c d) = [(''Bold'', [(''wght'', c)])]"
  by (simp add: example_defs resolver_defs)

lemma bold_desired_locations:
  "get_instance_locations (bold_gsfont c d) = Inr [(''Bold'', [(''wght'', d)])]"
  by (simp add: example_defs resolver_defs)

lemma bold_instances: "instances (bold_gsfont c d) \<noteq> []"
  by (simp add: example_defs)

lemma wght_700: "defaultNormalizedValue wght_range 700 = Inr (3 / 5)"
  by (simp add: wght_range_def defaultNormalizedValue_def)

lemma wght_800: "defaultNormalizedValue wght_range 800 = Inr (4 / 5)"
  by (simp add: wght_range_def defaultNormalizedValue_def)

lemma wght_400: "defaultNormalizedValue wght_range 400 = Inr 0"
  by (simp add: wght_range_def defaultNormalizedValue_def)

lemma wght_250: "defaultNormalizedValue wght_range 250 = Inr (- 1 / 2)"
  by (simp add: wght_range_def defaultNormalizedValue_def)

lemma bold_700_800:
  "create_avar bold_ttfont (bold_gsfont 700 800) True
     = Inr (bold_ttfont\<lparr>avar := Some [(''wght'', [(- 1, - 1), (0, 0), (1, 1), (4 / 5, 3 / 5)])]\<rparr>)"
  by (simp add: create_avar_def bold_axes_values bold_source_axes_values
        bold_current_locations bold_desired_locations bold_instances
        instance_point_def dict_get_def wght_700 wght_800)

lemma bold_700_400:
  "create_avar bold_ttfont (bold_gsfont 700 400) True
     = Inr (bold_ttfont\<lparr>avar := Some [(''wght'', [(- 1, - 1), (0, 3 / 5), (1, 1)])]\<rparr>)"
  by (simp add: create_avar_def bold_axes_values bold_source_axes_values
        bold_current_locations bold_desired_locations bold_instances
        instance_point_def dict_get_def wght_700 wght_400)

lemma bold_250_250:
  "create_avar bold_ttfont (bold_gsfont 250 250) True
     = Inr (bold_ttfont\<lparr>avar := Some [(''wght'', [(- 1, - 1), (0, 0), (1, 1), (- 1 / 2, - 1 / 2)])]\<rparr>)"
  by (simp add: create_avar_def bold_axes_values bold_source_axes_values
        bold_current_locations bold_desired_locations bold_instances
        instance_point_def dict_get_def wght_250)

lemma bold_400_400:
  "create_avar bold_ttfont (bold_gsfont 400 400) True
     = Inr (bold_ttfont\<lparr>avar := Some [(''wght'', [(- 1, - 1), (0, 0), (1, 1)])]\<rparr>)"
  by (simp add: create_avar_def bold_axes_values bold_source_axes_values
        bold_current_locations bold_desired_locations bold_instances
        instance_point_def dict_get_def wght_400)

lemma flat_source_axes_values:
  "get_source_axes_values flat_gsfont
     = Inr [(''wght'', \<lparr>ax_max = Fin 400, ax_min = Fin 400, ax_def = 400\<rparr>)]"
  by (simp add: flat_gsfont_def resolver_defs Let_def)



lemma black_first_update_fvar:
  "update_fvar black_first_ttfont (bold_gsfont 700 800) = (Some KeyError, black_first_ttfont)"
  by (simp add: update_fvar_def bold_desired_locations)
     (simp add: black_first_ttfont_def mismatch_ttfont_def get_name_def dict_get_def)

section \<open>Default normalization: anchors and monotonicity\<close>

text \<open>Claim C3. For an axis range with \<open>min < default < max\<close> the normalizer
  \<^verbatim>\<open>defaultNormalizedValue\<close> returns 0 at the default, -1 at the minimum and 1 at the
  maximum, and raises nothing there.\<close>

theorem normalizer_anchor_values:
  assumes "ax_min axis = Fin lo" and "ax_max axis = Fin hi"
    and "lo < ax_def axis" and "ax_def axis < hi"
  shows "defaultNormalizedValue axis (ax_def axis) = Inr 0
       \<and> defaultNormalizedValue axis lo = Inr (- 1)
       \<and> defaultNormalizedValue axis hi = Inr 1"
  using assms by (simp add: defaultNormalizedValue_def divide_eq_minus_1_iff)

text \<open>The weight range 100, 400, 900 satisfies the hypotheses.\<close>

theorem normalizer_anchor_values_witness:
  "defaultNormalizedValue wght_range 400 = Inr 0
   \<and> defaultNormalizedValue wght_range 100 = Inr (- 1)
   \<and> defaultNormalizedValue wght_range 900 = Inr 1"
  using normalizer_anchor_values[of wght_range 100 900] by (simp add: wght_range_def)

text \<open>Claim C7. For an axis range with \<open>min < default < max\<close> the normalizer returns a
  value on every input and is monotonically non-decreasing: \<open>v1 \<le> v2\<close> gives
  \<open>Normalizer(v1) \<le> Normalizer(v2)\<close>.\<close>

theorem normalizer_monotone:
  assumes lo: "ax_min axis = Fin lo" and hi: "ax_max axis = Fin hi"
    and l: "lo < ax_def axis" and h: "ax_def axis < hi" and le: "v1 \<le> v2"
  shows "\<exists>n1 n2. defaultNormalizedValue axis v1 = Inr n1
              \<and> defaultNormalizedValue axis v2 = Inr n2 \<and> n1 \<le> n2"
proof -
  let ?d = "ax_def axis"
  define f where "f v = (if v < ?d then - (?d - v) / (?d - lo)
                         else if ?d < v then (v - ?d) / (hi - ?d) else 0)" for v
  have eq: "defaultNormalizedValue axis v = Inr (f v)" for v
    using lo hi l h by (simp add: defaultNormalizedValue_def f_def)
  have neg: "f v \<le> 0" if "v < ?d" for v
    using that l by (simp add: f_def divide_nonpos_pos)
  have pos: "0 \<le> f v" if "?d \<le> v" for v
    using that h by (simp add: f_def)
  have "f v1 \<le> f v2"
  proof (cases "v2 < ?d")
    case True
    then have "v1 < ?d" using le by simp
    with True l le show ?thesis
      by (simp add: f_def divide_right_mono)
  next
    case v2: False
    show ?thesis
    proof (cases "v1 < ?d")
      case True
      from neg[OF True] pos[of v2] v2 show ?thesis by simp
    next
      case False
      with v2 h le show ?thesis
        by (auto simp: f_def divide_right_mono)
    qed
  qed
  with eq show ?thesis by blast
qed

text \<open>On the weight range, 250 lies below the default and 700 above it.\<close>

theorem normalizer_monotone_witness:
  "\<exists>n1 n2. defaultNormalizedValue wght_range 250 = Inr n1
         \<and> defaultNormalizedValue wght_range 700 = Inr n2 \<and> n1 \<le> n2"
  using normalizer_monotone[of wght_range 100 900 250 700] by (simp add: wght_range_def)

section \<open>Project-side ranges\<close>

text \<open>The scan over a non-empty master list leaves finite bounds that enclose every
  master coordinate, so the infinite sentinels never reach the normalizer: every
  range that \<^verbatim>\<open>get_source_axes_values\<close> returns has \<open>min \<le> default \<le> max\<close>.\<close>

lemma scan_masters_const:
  "\<forall>m\<in>set ms. axis_coordinate (master_axes m) i = c
   \<Longrightarrow> scan_masters i ms (Fin c, Fin c) = (Fin c, Fin c)"
  by (induction ms) auto

lemma scan_masters_all_equal:
  assumes "ms \<noteq> []" and "\<forall>m\<in>set ms. axis_coordinate (master_axes m) i = c"
  shows "scan_masters i ms (MInf, PInf) = (Fin c, Fin c)"
  using assms by (cases ms) (auto simp: scan_masters_const)

lemma scan_masters_bounds:
  "scan_masters i ms (Fin a, Fin b) = (mx, mn) \<Longrightarrow>
   \<exists>hi lo. mx = Fin hi \<and> mn = Fin lo \<and> a \<le> hi \<and> lo \<le> b
      \<and> (\<forall>m\<in>set ms. lo \<le> axis_coordinate (master_axes m) i
                     \<and> axis_coordinate (master_axes m) i \<le> hi)"
proof (induction ms arbitrary: a b)
  case Nil
  then show ?case by auto
next
  case (Cons m ms)
  let ?v = "axis_coordinate (master_axes m) i"
  from Cons.prems have
    "scan_masters i ms (Fin (if a < ?v then ?v else a), Fin (if ?v < b then ?v else b)) = (mx, mn)"
    by (auto simp: Let_def split: if_splits)
  from Cons.IH[OF this] obtain hi lo where
    h: "mx = Fin hi" "mn = Fin lo" "(if a < ?v then ?v else a) \<le> hi"
       "lo \<le> (if ?v < b then ?v else b)"
       "\<forall>m\<in>set ms. lo \<le> axis_coordinate (master_axes m) i
                     \<and> axis_coordinate (master_axes m) i \<le> hi" by blast
  from h(3,4) have "a \<le> hi" "lo \<le> b" "lo \<le> ?v" "?v \<le> hi"
    by (auto split: if_splits)
  with h show ?case by auto
qed

lemma scan_masters_finite:
  assumes "ms \<noteq> []" and "scan_masters i ms (MInf, PInf) = (mx, mn)"
  shows "\<exists>hi lo. mx = Fin hi \<and> mn = Fin lo
      \<and> (\<forall>m\<in>set ms. lo \<le> axis_coordinate (master_axes m) i
                     \<and> axis_coordinate (master_axes m) i \<le> hi)"
proof -
  from assms(1) obtain m rest where ms: "ms = m # rest" by (cases ms) auto
  let ?v = "axis_coordinate (master_axes m) i"
  from assms(2) have s: "scan_masters i rest (Fin ?v, Fin ?v) = (mx, mn)"
    by (simp add: ms Let_def)
  from scan_masters_bounds[OF s] show ?thesis by (auto simp: ms)
qed

lemma source_axes_loop_other:
  "tag \<notin> snd ` set items \<Longrightarrow>
   map_of (source_axes_loop dm ms items d) tag = map_of d tag"
  by (induction dm ms items d rule: source_axes_loop.induct)
     (auto simp: map_of_dict_set split: prod.splits)

lemma source_axes_loop_lookup:
  assumes "distinct (map snd items)" and "(i, tag) \<in> set items"
  shows "map_of (source_axes_loop dm ms items d) tag =
         Some \<lparr>ax_max = fst (scan_masters i ms (MInf, PInf)),
               ax_min = snd (scan_masters i ms (MInf, PInf)),
               ax_def = axis_coordinate (master_axes dm) i\<rparr>"
  using assms
proof (induction dm ms items d rule: source_axes_loop.induct)
  case (1 dm ms d)
  then show ?case by simp
next
  case (2 dm ms j t rest d)
  show ?case
  proof (cases "(i, tag) = (j, t)")
    case True
    with "2.prems" have "tag \<notin> snd ` set rest" by auto
    with True show ?thesis
      by (simp add: source_axes_loop_other map_of_dict_set split: prod.splits)
  next
    case False
    with "2.prems" have "(i, tag) \<in> set rest" "distinct (map snd rest)" by auto
    with "2.IH" show ?thesis by (auto split: prod.splits)
  qed
qed

lemma source_axes_loop_entries:
  "(tag, rng) \<in> set (source_axes_loop dm ms items d) \<Longrightarrow>
   (tag, rng) \<in> set d
   \<or> (\<exists>i. (i, tag) \<in> set items
          \<and> rng = \<lparr>ax_max = fst (scan_masters i ms (MInf, PInf)),
                    ax_min = snd (scan_masters i ms (MInf, PInf)),
                    ax_def = axis_coordinate (master_axes dm) i\<rparr>)"
proof (induction items arbitrary: d)
  case Nil
  then show ?case by simp
next
  case (Cons x rest)
  obtain j t where x: "x = (j, t)" by (cases x)
  let ?r = "\<lparr>ax_max = fst (scan_masters j ms (MInf, PInf)),
             ax_min = snd (scan_masters j ms (MInf, PInf)),
             ax_def = axis_coordinate (master_axes dm) j\<rparr>"
  from Cons.prems have "(tag, rng) \<in> set (source_axes_loop dm ms rest (dict_set d t ?r))"
    by (simp add: x case_prod_beta)
  from Cons.IH[OF this]
  have "(tag, rng) \<in> set (dict_set d t ?r)
     \<or> (\<exists>i. (i, tag) \<in> set rest
          \<and> rng = \<lparr>ax_max = fst (scan_masters i ms (MInf, PInf)),
                    ax_min = snd (scan_masters i ms (MInf, PInf)),
                    ax_def = axis_coordinate (master_axes dm) i\<rparr>)" .
  with set_dict_set[of d t ?r] show ?case by (auto simp: x)
qed

lemma source_ranges_finite:
  assumes "get_source_axes_values g = Inr sav" and "(tag, rng) \<in> set sav"
  shows "\<exists>lo hi. ax_min rng = Fin lo \<and> ax_max rng = Fin hi
           \<and> lo \<le> ax_def rng \<and> ax_def rng \<le> hi"
proof -
  from assms(1) obtain dm rest where
    f: "filter (\<lambda>m. Some (master_id m) = variable_font_origin g) (masters g) = dm # rest"
    and sav: "sav = source_axes_loop dm (masters g) (enumerate 0 (map axisTag (axes g))) []"
    by (auto simp: get_source_axes_values_def split: list.splits)
  from f have "dm \<in> set (filter (\<lambda>m. Some (master_id m) = variable_font_origin g) (masters g))"
    by simp
  then have dm: "dm \<in> set (masters g)" by simp
  then have ne: "masters g \<noteq> []" by auto
  from source_axes_loop_entries[of tag rng dm "masters g" _ "[]"] assms(2) sav
  obtain i where
    rng: "rng = \<lparr>ax_max = fst (scan_masters i (masters g) (MInf, PInf)),
                 ax_min = snd (scan_masters i (masters g) (MInf, PInf)),
                 ax_def = axis_coordinate (master_axes dm) i\<rparr>" by auto
  obtain mx mn where s: "scan_masters i (masters g) (MInf, PInf) = (mx, mn)"
    by (cases "scan_masters i (masters g) (MInf, PInf)")
  from scan_masters_finite[OF ne s] dm show ?thesis by (auto simp: rng s)
qed

text \<open>Claim C8. If all masters of the project share one coordinate \<open>c\<close> on an axis
  (a missing coordinate counting as 0), the resolved project-side range of that axis
  has \<open>min = default = max = c\<close>, and normalizing any value other than \<open>c\<close> under it
  raises \<^verbatim>\<open>ZeroDivisionError\<close> (the specification's \<^verbatim>\<open>DegenerateAxisRange\<close>); no curve
  value is produced.\<close>

theorem degenerate_axis_fails:
  assumes ok: "get_source_axes_values g = Inr sav"
    and i: "i < length (axes g)"
    and dist: "distinct (map axisTag (axes g))"
    and same: "\<forall>m\<in>set (masters g). axis_coordinate (master_axes m) i = c"
    and v: "v \<noteq> c"
  shows "\<exists>rng. dict_get sav (axisTag (axes g ! i)) = Inr rng
             \<and> ax_min rng = Fin c \<and> ax_def rng = c \<and> ax_max rng = Fin c
             \<and> defaultNormalizedValue rng v = Inl ZeroDivisionError"
proof -
  let ?tags = "map axisTag (axes g)"
  from ok obtain dm rest where
    f: "filter (\<lambda>m. Some (master_id m) = variable_font_origin g) (masters g) = dm # rest"
    and sav: "sav = source_axes_loop dm (masters g) (enumerate 0 ?tags) []"
    by (auto simp: get_source_axes_values_def split: list.splits)
  from f have "dm \<in> set (filter (\<lambda>m. Some (master_id m) = variable_font_origin g) (masters g))"
    by simp
  then have dm: "dm \<in> set (masters g)" by simp
  then have ne: "masters g \<noteq> []" by auto
  have mem: "(i, axisTag (axes g ! i)) \<in> set (enumerate 0 ?tags)"
    using i by (simp add: in_set_enumerate_eq)
  have d2: "distinct (map snd (enumerate 0 ?tags))"
    using dist by simp
  let ?rng = "\<lparr>ax_max = Fin c, ax_min = Fin c, ax_def = c\<rparr>"
  have "map_of sav (axisTag (axes g ! i)) = Some ?rng"
    unfolding sav using source_axes_loop_lookup[OF d2 mem, of dm "masters g" "[]"]
      scan_masters_all_equal[OF ne same] same dm by simp
  moreover have "defaultNormalizedValue ?rng v = Inl ZeroDivisionError"
    using v by (auto simp: defaultNormalizedValue_def)
  ultimately show ?thesis by (simp add: dict_get_def)
qed

text \<open>In \<open>flat_gsfont\<close> both masters sit at 400; normalizing 700 fails.\<close>

theorem degenerate_axis_fails_witness:
  "get_source_axes_values flat_gsfont
     = Inr [(''wght'', \<lparr>ax_max = Fin 400, ax_min = Fin 400, ax_def = 400\<rparr>)]
   \<and> defaultNormalizedValue \<lparr>ax_max = Fin 400, ax_min = Fin 400, ax_def = 400\<rparr> 700
       = Inl ZeroDivisionError"
proof -
  have i: "0 < length (axes flat_gsfont)" by (simp add: flat_gsfont_def)
  have dist: "distinct (map axisTag (axes flat_gsfont))" by (simp add: flat_gsfont_def)
  have same: "\<forall>m\<in>set (masters flat_gsfont). axis_coordinate (master_axes m) 0 = 400"
    by (simp add: flat_gsfont_def axis_coordinate_def)
  have v: "(700::real) \<noteq> 400" by simp
  from degenerate_axis_fails[OF flat_source_axes_values i dist same v]
  obtain rng where
    r: "dict_get [(''wght'', \<lparr>ax_max = Fin 400, ax_min = Fin 400, ax_def = 400\<rparr>)]
          (axisTag (axes flat_gsfont ! 0)) = Inr rng"
       "defaultNormalizedValue rng 700 = Inl ZeroDivisionError" by blast
  from r(1) have "rng = \<lparr>ax_max = Fin 400, ax_min = Fin 400, ax_def = 400\<rparr>"
    by (simp add: flat_gsfont_def dict_get_def)
  with r(2) show ?thesis by (simp add: flat_source_axes_values)
qed

lemma axis_coordinate_explicit_zeros:
  "i < n \<Longrightarrow> axis_coordinate (master_axes (explicit_zeros n m)) i = axis_coordinate (master_axes m) i"
  by (simp add: axis_coordinate_def explicit_zeros_def nth_append)

lemma scan_masters_explicit_zeros:
  "i < n \<Longrightarrow> scan_masters i (map (explicit_zeros n) ms) acc = scan_masters i ms acc"
  by (induction i ms acc rule: scan_masters.induct)
     (simp_all add: axis_coordinate_explicit_zeros)

lemma source_axes_loop_explicit_zeros:
  "\<forall>(i, tag)\<in>set items. i < n \<Longrightarrow>
   source_axes_loop (explicit_zeros n dm) (map (explicit_zeros n) ms) items d
     = source_axes_loop dm ms items d"
  by (induction dm ms items d rule: source_axes_loop.induct)
     (auto simp: axis_coordinate_explicit_zeros scan_masters_explicit_zeros split: prod.splits)

text \<open>Claim C9. A master without a coordinate at an axis index contributes 0.0 to that
  axis's minimum, maximum and default: \<^verbatim>\<open>get_source_axes_values\<close> returns the same result
  (the same ranges, or the same failure) as on the project in which every master's
  missing coordinates are written out as 0.0.\<close>

theorem sparse_masters_as_zero:
  "get_source_axes_values (g\<lparr>masters := map (explicit_zeros (length (axes g))) (masters g)\<rparr>)
     = get_source_axes_values g"
proof -
  let ?n = "length (axes g)"
  let ?P = "\<lambda>m. Some (master_id m) = variable_font_origin g"
  have filt: "filter ?P (map (explicit_zeros ?n) (masters g))
                = map (explicit_zeros ?n) (filter ?P (masters g))"
    by (simp add: filter_map o_def explicit_zeros_def)
  have bound: "\<forall>(i, tag)\<in>set (enumerate 0 (map axisTag (axes g))). i < ?n"
    by (auto simp: in_set_enumerate_eq)
  show ?thesis
    by (cases "filter ?P (masters g)")
       (simp_all add: get_source_axes_values_def filt
          source_axes_loop_explicit_zeros[OF bound])
qed

text \<open>In \<open>sparse_gsfont\<close> the origin master has no width coordinate; the width range
  is 0, 0, 50.\<close>

theorem sparse_masters_as_zero_witness:
  "get_source_axes_values sparse_gsfont
     = Inr [(''wght'', \<lparr>ax_max = Fin 900, ax_min = Fin 100, ax_def = 100\<rparr>),
            (''wdth'', \<lparr>ax_max = Fin 50, ax_min = Fin 0, ax_def = 0\<rparr>)]
   \<and> map (explicit_zeros (length (axes sparse_gsfont))) (masters sparse_gsfont)
       = [\<lparr>master_id = ''m1'', master_axes = [100, 0]\<rparr>,
          \<lparr>master_id = ''m2'', master_axes = [900, 50]\<rparr>]"
proof -
  have m: "map (explicit_zeros (length (axes sparse_gsfont))) (masters sparse_gsfont)
       = [\<lparr>master_id = ''m1'', master_axes = [100, 0]\<rparr>,
          \<lparr>master_id = ''m2'', master_axes = [900, 50]\<rparr>]"
    by (simp add: sparse_gsfont_def explicit_zeros_def)
  have "get_source_axes_values
          (sparse_gsfont\<lparr>masters := [\<lparr>master_id = ''m1'', master_axes = [100, 0]\<rparr>,
                                      \<lparr>master_id = ''m2'', master_axes = [900, 50]\<rparr>]\<rparr>)
     = Inr [(''wght'', \<lparr>ax_max = Fin 900, ax_min = Fin 100, ax_def = 100\<rparr>),
            (''wdth'', \<lparr>ax_max = Fin 50, ax_min = Fin 0, ax_def = 0\<rparr>)]"
    by (simp add: sparse_gsfont_def resolver_defs Let_def)
  with sparse_masters_as_zero[of sparse_gsfont] m show ?thesis by simp
qed

section \<open>The avar curve\<close>

text \<open>A successful run of the inner loop has computed one point per entry of
  \<^verbatim>\<open>current_locations\<close> and stored them in order; a successful run of
  \<^verbatim>\<open>create_avar\<close> has done so for every axis of the binary.\<close>

lemma instance_point_InrD:
  "instance_point vb tag rng sav dls nm cur = Inr (key, val) \<Longrightarrow>
   \<exists>srng c dl d. map_of sav tag = Some srng \<and> map_of cur tag = Some c
      \<and> defaultNormalizedValue srng c = Inr val
      \<and> map_of dls nm = Some dl \<and> map_of dl tag = Some d
      \<and> defaultNormalizedValue rng d = Inr key"
  by (auto simp: instance_point_def dict_get_def split: if_splits sum.splits option.splits)

lemma curve_loop_points:
  "curve_loop vb tag rng sav dls cls curve = Inr curve' \<Longrightarrow>
   \<exists>pts. list_all2 (\<lambda>(nm, cur) pt. instance_point vb tag rng sav dls nm cur = Inr pt) cls pts
       \<and> curve' = dict_sets curve pts"
proof (induction cls arbitrary: curve)
  case Nil
  then show ?case by (simp add: dict_sets_Nil)
next
  case (Cons x cls)
  obtain nm cur where x: "x = (nm, cur)" by (cases x)
  from Cons.prems obtain key val where
    pt: "instance_point vb tag rng sav dls nm cur = Inr (key, val)"
    and rest: "curve_loop vb tag rng sav dls cls (dict_set curve key val) = Inr curve'"
    by (auto simp: x split: sum.splits)
  from Cons.IH[OF rest] obtain pts where
    "list_all2 (\<lambda>(nm, cur) pt. instance_point vb tag rng sav dls nm cur = Inr pt) cls pts"
    "curve' = dict_sets (dict_set curve key val) pts" by blast
  then have
    "list_all2 (\<lambda>(nm, cur) pt. instance_point vb tag rng sav dls nm cur = Inr pt)
       (x # cls) ((key, val) # pts) \<and> curve' = dict_sets curve ((key, val) # pts)"
    using pt by (simp add: x dict_sets_Cons)
  then show ?case by blast
qed

lemma axes_loop_other:
  "axes_loop vb sav dls cls items segs = Inr segs' \<Longrightarrow> tag \<notin> fst ` set items
   \<Longrightarrow> map_of segs' tag = map_of segs tag"
proof (induction items arbitrary: segs)
  case Nil
  then show ?case by simp
next
  case (Cons x items)
  obtain t r where x: "x = (t, r)" by (cases x)
  from Cons.prems(1) obtain curve where
    rest: "axes_loop vb sav dls cls items (dict_set segs t curve) = Inr segs'"
    by (auto simp: x split: sum.splits)
  from Cons.IH[OF rest] Cons.prems(2) show ?case
    by (simp add: x map_of_dict_set)
qed

lemma axes_loop_lookup:
  "axes_loop vb sav dls cls items segs = Inr segs' \<Longrightarrow> distinct (map fst items)
   \<Longrightarrow> (tag, rng) \<in> set items
   \<Longrightarrow> \<exists>curve. map_of segs' tag = Some curve
          \<and> curve_loop vb tag rng sav dls cls [(-1, -1), (0, 0), (1, 1)] = Inr curve"
proof (induction items arbitrary: segs)
  case Nil
  then show ?case by simp
next
  case (Cons x items)
  obtain t r where x: "x = (t, r)" by (cases x)
  from Cons.prems(1) obtain curve where
    cv: "curve_loop vb t r sav dls cls [(-1, -1), (0, 0), (1, 1)] = Inr curve"
    and rest: "axes_loop vb sav dls cls items (dict_set segs t curve) = Inr segs'"
    by (auto simp: x split: sum.splits)
  show ?case
  proof (cases "(tag, rng) = (t, r)")
    case True
    with Cons.prems(2) have "tag \<notin> fst ` set items" by (auto simp: x)
    from axes_loop_other[OF rest this] True cv show ?thesis
      by (simp add: map_of_dict_set)
  next
    case False
    with Cons.prems have "(tag, rng) \<in> set items" "distinct (map fst items)"
      by (auto simp: x)
    with Cons.IH[OF rest] show ?thesis by blast
  qed
qed

lemma axes_loop_origin:
  "axes_loop vb sav dls cls items segs = Inr segs' \<Longrightarrow> map_of segs' tag = Some curve
   \<Longrightarrow> map_of segs tag = Some curve
      \<or> (\<exists>rng. (tag, rng) \<in> set items
            \<and> curve_loop vb tag rng sav dls cls [(-1, -1), (0, 0), (1, 1)] = Inr curve)"
proof (induction items arbitrary: segs)
  case Nil
  then show ?case by simp
next
  case (Cons x items)
  obtain t r where x: "x = (t, r)" by (cases x)
  from Cons.prems(1) obtain cv where
    cv: "curve_loop vb t r sav dls cls [(-1, -1), (0, 0), (1, 1)] = Inr cv"
    and rest: "axes_loop vb sav dls cls items (dict_set segs t cv) = Inr segs'"
    by (auto simp: x split: sum.splits)
  from Cons.IH[OF rest Cons.prems(2)] cv show ?case
    by (auto simp: x map_of_dict_set split: if_splits)
qed

lemma create_avar_InrD:
  "create_avar t g vb = Inr t' \<Longrightarrow>
   \<exists>sav dls segs. get_source_axes_values g = Inr sav \<and> get_instance_locations g = Inr dls
      \<and> axes_loop vb sav dls (get_gvar_instance_locations g) (get_axes_values t) [] = Inr segs
      \<and> t' = t\<lparr>avar := Some segs\<rparr>"
  by (auto simp: create_avar_def Let_def split: sum.splits if_splits)

lemma distinct_get_axes_values: "distinct (map fst (get_axes_values t))"
  by (simp add: get_axes_values_def distinct_dict_of)

lemma create_avar_curve:
  assumes "create_avar t g vb = Inr t'" and "(tag, rng) \<in> set (get_axes_values t)"
  shows "\<exists>sav dls segs pts. get_source_axes_values g = Inr sav
     \<and> get_instance_locations g = Inr dls \<and> avar t' = Some segs
     \<and> map_of segs tag = Some (dict_sets [(-1, -1), (0, 0), (1, 1)] pts)
     \<and> list_all2 (\<lambda>(nm, cur) pt. instance_point vb tag rng sav dls nm cur = Inr pt)
          (get_gvar_instance_locations g) pts"
proof -
  from create_avar_InrD[OF assms(1)] obtain sav dls segs where
    s: "get_source_axes_values g = Inr sav" "get_instance_locations g = Inr dls"
       "axes_loop vb sav dls (get_gvar_instance_locations g) (get_axes_values t) [] = Inr segs"
       "t' = t\<lparr>avar := Some segs\<rparr>" by blast
  from axes_loop_lookup[OF s(3) distinct_get_axes_values assms(2)] obtain curve where
    c: "map_of segs tag = Some curve"
       "curve_loop vb tag rng sav dls (get_gvar_instance_locations g) [(-1, -1), (0, 0), (1, 1)]
          = Inr curve" by blast
  from curve_loop_points[OF c(2)] c(1) s show ?thesis by auto
qed

lemma create_avar_points:
  assumes "create_avar t g vb = Inr t'" and "(tag, rng) \<in> set (get_axes_values t)"
  shows "\<exists>sav dls segs pts. get_source_axes_values g = Inr sav
     \<and> get_instance_locations g = Inr dls \<and> avar t' = Some segs
     \<and> map_of segs tag = Some (dict_sets [(-1, -1), (0, 0), (1, 1)] pts)
     \<and> length pts = length (get_gvar_instance_locations g)
     \<and> (\<forall>n<length (get_gvar_instance_locations g).
           \<exists>srng c dl d. map_of sav tag = Some srng
             \<and> map_of (snd (get_gvar_instance_locations g ! n)) tag = Some c
             \<and> map_of dls (fst (get_gvar_instance_locations g ! n)) = Some dl
             \<and> map_of dl tag = Some d
             \<and> defaultNormalizedValue rng d = Inr (fst (pts ! n))
             \<and> defaultNormalizedValue srng c = Inr (snd (pts ! n)))"
proof -
  let ?cls = "get_gvar_instance_locations g"
  from create_avar_curve[OF assms] obtain sav dls segs pts where
    s: "get_source_axes_values g = Inr sav" "get_instance_locations g = Inr dls"
       "avar t' = Some segs"
       "map_of segs tag = Some (dict_sets [(-1, -1), (0, 0), (1, 1)] pts)"
    and pts: "list_all2 (\<lambda>(nm, cur) pt. instance_point vb tag rng sav dls nm cur = Inr pt)
                ?cls pts" by blast
  from pts have len: "length pts = length ?cls" by (simp add: list_all2_lengthD)
  have "\<exists>srng c dl d. map_of sav tag = Some srng
             \<and> map_of (snd (?cls ! n)) tag = Some c
             \<and> map_of dls (fst (?cls ! n)) = Some dl
             \<and> map_of dl tag = Some d
             \<and> defaultNormalizedValue rng d = Inr (fst (pts ! n))
             \<and> defaultNormalizedValue srng c = Inr (snd (pts ! n))"
    if n: "n < length ?cls" for n
  proof -
    from list_all2_nthD[OF pts n]
    have "instance_point vb tag rng sav dls (fst (?cls ! n)) (snd (?cls ! n))
            = Inr (fst (pts ! n), snd (pts ! n))"
      by (simp add: case_prod_beta)
    from instance_point_InrD[OF this] show ?thesis by blast
  qed
  with s len show ?thesis by blast
qed

lemma current_locations_distinct_names:
  "distinct (map instance_name (instances g)) \<Longrightarrow>
   get_gvar_instance_locations g
     = map (\<lambda>inst. (instance_name inst, gvar_instance_location (map axisTag (axes g)) inst))
           (instances g)"
  by (simp add: get_gvar_instance_locations_def dict_of_distinct o_def)

text \<open>Claim C1, as the code has it. The specification states the inserted pair as
  \<open>curve[current] = desired\<close>; the program stores it the other way round. For every
  axis of the binary's axis table and every entry of \<^verbatim>\<open>current_locations\<close> (one per
  instance name, in project enumeration order), a successful \<^verbatim>\<open>create_avar\<close> has
  computed \<open>key\<close>, the normalizer applied to the instance's declared desired location
  under the binary-side range, and \<open>val\<close>, the normalizer applied to the instance's
  current location under the project-side range, and the curve of the axis maps
  \<open>key\<close> to \<open>val\<close>, unless an instance processed later has the same key on this axis
  (the later one then overwrites the entry).\<close>

theorem create_avar_point:
  assumes run: "create_avar t g vb = Inr t'"
    and axis: "(tag, rng) \<in> set (get_axes_values t)"
    and j: "j < length (get_gvar_instance_locations g)"
    and inst: "get_gvar_instance_locations g ! j = (nm, cur)"
  shows "\<exists>sav srng c val dls dl d key segs curve.
           get_source_axes_values g = Inr sav \<and> map_of sav tag = Some srng
         \<and> map_of cur tag = Some c \<and> defaultNormalizedValue srng c = Inr val
         \<and> get_instance_locations g = Inr dls \<and> map_of dls nm = Some dl
         \<and> map_of dl tag = Some d \<and> defaultNormalizedValue rng d = Inr key
         \<and> avar t' = Some segs \<and> map_of segs tag = Some curve
         \<and> ((\<forall>j' nm' cur' dl' d'.
                j < j' \<and> j' < length (get_gvar_instance_locations g)
                \<and> get_gvar_instance_locations g ! j' = (nm', cur')
                \<and> map_of dls nm' = Some dl' \<and> map_of dl' tag = Some d'
                \<longrightarrow> defaultNormalizedValue rng d' \<noteq> Inr key)
             \<longrightarrow> map_of curve key = Some val)"
proof -
  let ?cls = "get_gvar_instance_locations g"
  from create_avar_curve[OF run axis] obtain sav dls segs pts where
    s: "get_source_axes_values g = Inr sav" "get_instance_locations g = Inr dls"
       "avar t' = Some segs"
       "map_of segs tag = Some (dict_sets [(-1, -1), (0, 0), (1, 1)] pts)"
    and pts: "list_all2 (\<lambda>(nm, cur) pt. instance_point vb tag rng sav dls nm cur = Inr pt)
                ?cls pts" by blast
  from pts have len: "length pts = length ?cls" by (simp add: list_all2_lengthD)
  have at: "instance_point vb tag rng sav dls (fst (?cls ! n)) (snd (?cls ! n)) = Inr (pts ! n)"
    if "n < length ?cls" for n
    using list_all2_nthD[OF pts that] by (simp add: case_prod_beta)
  obtain key val where kv: "pts ! j = (key, val)" by (cases "pts ! j")
  from at[OF j] inst kv have "instance_point vb tag rng sav dls nm cur = Inr (key, val)"
    by simp
  from instance_point_InrD[OF this] obtain srng c dl d where
    d: "map_of sav tag = Some srng" "map_of cur tag = Some c"
       "defaultNormalizedValue srng c = Inr val"
       "map_of dls nm = Some dl" "map_of dl tag = Some d"
       "defaultNormalizedValue rng d = Inr key" by blast
  have last: "map_of (dict_sets [(-1, -1), (0, 0), (1, 1)] pts) key = Some val"
    if later: "\<forall>j' nm' cur' dl' d'.
                j < j' \<and> j' < length ?cls \<and> ?cls ! j' = (nm', cur')
                \<and> map_of dls nm' = Some dl' \<and> map_of dl' tag = Some d'
                \<longrightarrow> defaultNormalizedValue rng d' \<noteq> Inr key"
  proof (rule map_of_dict_sets_last)
    show "j < length pts" using j len by simp
    show "pts ! j = (key, val)" by (rule kv)
    show "\<forall>j'. j < j' \<and> j' < length pts \<longrightarrow> fst (pts ! j') \<noteq> key"
    proof (intro allI impI)
      fix j' assume a: "j < j' \<and> j' < length pts"
      then have lt: "j' < length ?cls" using len by simp
      obtain k' v' where p': "pts ! j' = (k', v')" by (cases "pts ! j'")
      obtain nm' cur' where c': "?cls ! j' = (nm', cur')" by (cases "?cls ! j'")
      from at[OF lt] p' c' have "instance_point vb tag rng sav dls nm' cur' = Inr (k', v')"
        by simp
      from instance_point_InrD[OF this] obtain dl' d' where
        "map_of dls nm' = Some dl'" "map_of dl' tag = Some d'"
        "defaultNormalizedValue rng d' = Inr k'" by blast
      with later[rule_format, of j' nm' cur' dl' d'] a lt c' have "k' \<noteq> key" by auto
      then show "fst (pts ! j') \<noteq> key" by (simp add: p')
    qed
  qed
  from s d last show ?thesis by (intro exI conjI impI) (assumption | simp)+
qed

text \<open>With current location 700 and desired location 800 on the weight range, the one
  instance gives the entry \<open>0.8 \<mapsto> 0.6\<close>.\<close>

theorem create_avar_point_witness:
  "create_avar bold_ttfont (bold_gsfont 700 800) True
     = Inr (bold_ttfont\<lparr>avar := Some [(''wght'', [(- 1, - 1), (0, 0), (1, 1), (4 / 5, 3 / 5)])]\<rparr>)
   \<and> (\<exists>segs curve.
         avar (bold_ttfont\<lparr>avar := Some [(''wght'', [(- 1, - 1), (0, 0), (1, 1), (4 / 5, 3 / 5)])]\<rparr>)
           = Some segs
       \<and> map_of segs ''wght'' = Some curve \<and> map_of curve (4 / 5) = Some (3 / 5))"
proof -
  let ?g = "bold_gsfont 700 800"
  have axis: "(''wght'', wght_range) \<in> set (get_axes_values bold_ttfont)"
    by (simp add: bold_axes_values)
  have j: "0 < length (get_gvar_instance_locations ?g)"
    by (simp add: bold_current_locations)
  have inst: "get_gvar_instance_locations ?g ! 0 = (''Bold'', [(''wght'', 700)])"
    by (simp add: bold_current_locations)
  from create_avar_point[OF bold_700_800 axis j inst]
  obtain sav srng c val dls dl d key segs curve where
    f: "get_source_axes_values ?g = Inr sav" "map_of sav ''wght'' = Some srng"
       "map_of [(''wght'', 700::real)] ''wght'' = Some c"
       "defaultNormalizedValue srng c = Inr val"
       "get_instance_locations ?g = Inr dls" "map_of dls ''Bold'' = Some dl"
       "map_of dl ''wght'' = Some d" "defaultNormalizedValue wght_range d = Inr key"
       "avar (bold_ttfont\<lparr>avar := Some [(''wght'', [(- 1, - 1), (0, 0), (1, 1), (4 / 5, 3 / 5)])]\<rparr>)
          = Some segs"
       "map_of segs ''wght'' = Some curve"
    and last: "(\<forall>j' nm' cur' dl' d'.
                0 < j' \<and> j' < length (get_gvar_instance_locations ?g)
                \<and> get_gvar_instance_locations ?g ! j' = (nm', cur')
                \<and> map_of dls nm' = Some dl' \<and> map_of dl' ''wght'' = Some d'
                \<longrightarrow> defaultNormalizedValue wght_range d' \<noteq> Inr key)
             \<longrightarrow> map_of curve key = Some val"
    by blast
  from f have "val = 3 / 5" "key = 4 / 5"
    by (auto simp: bold_source_axes_values bold_desired_locations wght_700 wght_800)
  moreover from last have "map_of curve key = Some val"
    by (simp add: bold_current_locations)
  ultimately show ?thesis using f bold_700_800 by auto
qed

text \<open>In the same run the statement \<open>curve[current] = desired\<close> fails: the normalized
  current location 0.6 is not a key of the curve, and the entry is \<open>0.8 \<mapsto> 0.6\<close>, not
  \<open>0.6 \<mapsto> 0.8\<close>.\<close>

theorem create_avar_point_counterexample:
  "get_axes_values bold_ttfont = [(''wght'', wght_range)]
   \<and> get_source_axes_values (bold_gsfont 700 800) = Inr [(''wght'', wght_range)]
   \<and> get_gvar_instance_locations (bold_gsfont 700 800) = [(''Bold'', [(''wght'', 700)])]
   \<and> get_instance_locations (bold_gsfont 700 800) = Inr [(''Bold'', [(''wght'', 800)])]
   \<and> defaultNormalizedValue wght_range 700 = Inr (3 / 5)
   \<and> defaultNormalizedValue wght_range 800 = Inr (4 / 5)
   \<and> create_avar bold_ttfont (bold_gsfont 700 800) True
        = Inr (bold_ttfont\<lparr>avar := Some [(''wght'', [(- 1, - 1), (0, 0), (1, 1), (4 / 5, 3 / 5)])]\<rparr>)
   \<and> dict_get ([(- 1, - 1), (0, 0), (1, 1), (4 / 5, 3 / 5)] :: (real \<times> real) list) (3 / 5) = Inl KeyError
   \<and> dict_get ([(- 1, - 1), (0, 0), (1, 1), (4 / 5, 3 / 5)] :: (real \<times> real) list) (4 / 5) = Inr (3 / 5)"
  by (simp add: bold_axes_values bold_source_axes_values bold_current_locations
        bold_desired_locations wght_700 wght_800 bold_700_800 dict_get_def)

text \<open>Claim C4, as the code has it. After a successful \<^verbatim>\<open>create_avar\<close> the curve of
  every axis of the binary contains the keys -1, 0 and 1. Such a key \<open>a\<close> maps to itself
  provided no instance contributes the key \<open>a\<close> with a different value, that is,
  provided every instance whose declared desired location normalizes to \<open>a\<close> under
  the binary-side range has a current location that normalizes to \<open>a\<close> under the
  project-side range. When instances do contribute the key \<open>a\<close>, it maps to the
  normalized current location of the last of them: the anchor is overwritten, so the
  specification's "regardless of which instance-contributed points were inserted"
  does not hold.\<close>

theorem create_avar_anchors:
  assumes run: "create_avar t g vb = Inr t'"
    and axis: "(tag, rng) \<in> set (get_axes_values t)"
    and a: "a = - 1 \<or> a = 0 \<or> a = 1"
  shows "\<exists>sav dls segs curve.
           get_source_axes_values g = Inr sav \<and> get_instance_locations g = Inr dls
         \<and> avar t' = Some segs \<and> map_of segs tag = Some curve
         \<and> a \<in> fst ` set curve
         \<and> ((\<forall>nm cur srng c dl d.
                (nm, cur) \<in> set (get_gvar_instance_locations g)
                \<and> map_of sav tag = Some srng \<and> map_of cur tag = Some c
                \<and> map_of dls nm = Some dl \<and> map_of dl tag = Some d
                \<and> defaultNormalizedValue rng d = Inr a
                \<longrightarrow> defaultNormalizedValue srng c = Inr a)
             \<longrightarrow> map_of curve a = Some a)
         \<and> (\<forall>j nm cur srng c dl d val.
                j < length (get_gvar_instance_locations g)
                \<and> get_gvar_instance_locations g ! j = (nm, cur)
                \<and> map_of sav tag = Some srng \<and> map_of cur tag = Some c
                \<and> map_of dls nm = Some dl \<and> map_of dl tag = Some d
                \<and> defaultNormalizedValue rng d = Inr a
                \<and> defaultNormalizedValue srng c = Inr val
                \<and> (\<forall>j' nm' cur' dl' d'.
                      j < j' \<and> j' < length (get_gvar_instance_locations g)
                      \<and> get_gvar_instance_locations g ! j' = (nm', cur')
                      \<and> map_of dls nm' = Some dl' \<and> map_of dl' tag = Some d'
                      \<longrightarrow> defaultNormalizedValue rng d' \<noteq> Inr a)
                \<longrightarrow> map_of curve a = Some val)"
proof -
  let ?cls = "get_gvar_instance_locations g"
  let ?anchors = "[(-1, -1), (0, 0), (1, 1)] :: (real \<times> real) list"
  from create_avar_points[OF run axis] obtain sav dls segs pts where
    s: "get_source_axes_values g = Inr sav" "get_instance_locations g = Inr dls"
       "avar t' = Some segs" "map_of segs tag = Some (dict_sets ?anchors pts)"
    and len: "length pts = length ?cls"
    and pt: "\<forall>n<length ?cls.
           \<exists>srng c dl d. map_of sav tag = Some srng
             \<and> map_of (snd (?cls ! n)) tag = Some c
             \<and> map_of dls (fst (?cls ! n)) = Some dl
             \<and> map_of dl tag = Some d
             \<and> defaultNormalizedValue rng d = Inr (fst (pts ! n))
             \<and> defaultNormalizedValue srng c = Inr (snd (pts ! n))" by blast
  have anchor: "map_of ?anchors a = Some a" using a by auto
  have key: "a \<in> fst ` set (dict_sets ?anchors pts)"
    using a by (auto simp: keys_dict_sets)
  have self: "map_of (dict_sets ?anchors pts) a = Some a"
    if agree: "\<forall>nm cur srng c dl d.
                (nm, cur) \<in> set ?cls
                \<and> map_of sav tag = Some srng \<and> map_of cur tag = Some c
                \<and> map_of dls nm = Some dl \<and> map_of dl tag = Some d
                \<and> defaultNormalizedValue rng d = Inr a
                \<longrightarrow> defaultNormalizedValue srng c = Inr a"
  proof (cases "map_of (rev pts) a")
    case None
    then have "map_of (dict_sets ?anchors pts) a = map_of ?anchors a"
      by (simp only: map_of_dict_sets option.case)
    with anchor show ?thesis by (simp only:)
  next
    case (Some v)
    then have "(a, v) \<in> set pts" using map_of_SomeD by fastforce
    then obtain n where n: "n < length pts" "pts ! n = (a, v)"
      by (auto simp: in_set_conv_nth)
    with len have nl: "n < length ?cls" by simp
    from pt[rule_format, OF nl] n obtain srng c dl d where
      d: "map_of sav tag = Some srng" "map_of (snd (?cls ! n)) tag = Some c"
         "map_of dls (fst (?cls ! n)) = Some dl" "map_of dl tag = Some d"
         "defaultNormalizedValue rng d = Inr a" "defaultNormalizedValue srng c = Inr v"
      by auto
    have "(fst (?cls ! n), snd (?cls ! n)) \<in> set ?cls" using nl by simp
    with agree[rule_format, of "fst (?cls ! n)" "snd (?cls ! n)" srng c dl d] d
    have "v = a" by simp
    with Some show ?thesis by (simp add: map_of_dict_sets)
  qed
  have over: "map_of (dict_sets ?anchors pts) a = Some val"
    if j: "j < length ?cls" and inst: "?cls ! j = (nm, cur)"
      and l: "map_of sav tag = Some srng" "map_of cur tag = Some c"
             "map_of dls nm = Some dl" "map_of dl tag = Some d"
             "defaultNormalizedValue rng d = Inr a" "defaultNormalizedValue srng c = Inr val"
      and later: "\<forall>j' nm' cur' dl' d'.
                      j < j' \<and> j' < length ?cls \<and> ?cls ! j' = (nm', cur')
                      \<and> map_of dls nm' = Some dl' \<and> map_of dl' tag = Some d'
                      \<longrightarrow> defaultNormalizedValue rng d' \<noteq> Inr a"
    for j nm cur srng c dl d val
  proof (rule map_of_dict_sets_last)
    show "j < length pts" using j len by simp
    from pt[rule_format, OF j] inst l show "pts ! j = (a, val)"
      by (cases "pts ! j") auto
    show "\<forall>j'. j < j' \<and> j' < length pts \<longrightarrow> fst (pts ! j') \<noteq> a"
    proof (intro allI impI)
      fix j' assume b: "j < j' \<and> j' < length pts"
      then have lt: "j' < length ?cls" using len by simp
      from pt[rule_format, OF lt] obtain dl' d' where
        "map_of dls (fst (?cls ! j')) = Some dl'" "map_of dl' tag = Some d'"
        "defaultNormalizedValue rng d' = Inr (fst (pts ! j'))" by blast
      with later[rule_format, of j' "fst (?cls ! j')" "snd (?cls ! j')" dl' d'] b lt
      show "fst (pts ! j') \<noteq> a" by auto
    qed
  qed
  show ?thesis
  proof (intro exI conjI)
    show "get_source_axes_values g = Inr sav" by (rule s(1))
    show "get_instance_locations g = Inr dls" by (rule s(2))
    show "avar t' = Some segs" by (rule s(3))
    show "map_of segs tag = Some (dict_sets ?anchors pts)" by (rule s(4))
    show "a \<in> fst ` set (dict_sets ?anchors pts)" by (rule key)
    show "(\<forall>nm cur srng c dl d.
                (nm, cur) \<in> set ?cls
                \<and> map_of sav tag = Some srng \<and> map_of cur tag = Some c
                \<and> map_of dls nm = Some dl \<and> map_of dl tag = Some d
                \<and> defaultNormalizedValue rng d = Inr a
                \<longrightarrow> defaultNormalizedValue srng c = Inr a)
             \<longrightarrow> map_of (dict_sets ?anchors pts) a = Some a"
      using self by blast
    show "\<forall>j nm cur srng c dl d val.
                j < length ?cls \<and> ?cls ! j = (nm, cur)
                \<and> map_of sav tag = Some srng \<and> map_of cur tag = Some c
                \<and> map_of dls nm = Some dl \<and> map_of dl tag = Some d
                \<and> defaultNormalizedValue rng d = Inr a
                \<and> defaultNormalizedValue srng c = Inr val
                \<and> (\<forall>j' nm' cur' dl' d'.
                      j < j' \<and> j' < length ?cls \<and> ?cls ! j' = (nm', cur')
                      \<and> map_of dls nm' = Some dl' \<and> map_of dl' tag = Some d'
                      \<longrightarrow> defaultNormalizedValue rng d' \<noteq> Inr a)
                \<longrightarrow> map_of (dict_sets ?anchors pts) a = Some val"
      using over by blast
  qed
qed

text \<open>An instance on the default (current and desired location 400) contributes
  \<open>0 \<mapsto> 0\<close> and leaves the anchor as it is; with current location 700 and desired
  location 400 the last instance with key 0 has the value 0.6.\<close>

theorem create_avar_anchors_witness:
  "(\<exists>segs curve.
       avar (bold_ttfont\<lparr>avar := Some [(''wght'', [(- 1, - 1), (0, 0), (1, 1)])]\<rparr>) = Some segs
     \<and> map_of segs ''wght'' = Some curve \<and> 0 \<in> fst ` set curve \<and> map_of curve 0 = Some 0)
   \<and> (\<exists>segs curve.
       avar (bold_ttfont\<lparr>avar := Some [(''wght'', [(- 1, - 1), (0, 3 / 5), (1, 1)])]\<rparr>) = Some segs
     \<and> map_of segs ''wght'' = Some curve \<and> 0 \<in> fst ` set curve
     \<and> map_of curve 0 = Some (3 / 5))"
proof -
  have axis: "(''wght'', wght_range) \<in> set (get_axes_values bold_ttfont)"
    by (simp add: bold_axes_values)
  have a: "(0::real) = - 1 \<or> (0::real) = 0 \<or> (0::real) = 1" by simp
  have first: "\<exists>segs curve.
       avar (bold_ttfont\<lparr>avar := Some [(''wght'', [(- 1, - 1), (0, 0), (1, 1)])]\<rparr>) = Some segs
     \<and> map_of segs ''wght'' = Some curve \<and> 0 \<in> fst ` set curve \<and> map_of curve 0 = Some 0"
  proof -
    let ?g = "bold_gsfont 400 400"
    from create_avar_anchors[OF bold_400_400 axis a]
    obtain sav dls segs curve where
      f: "get_source_axes_values ?g = Inr sav" "get_instance_locations ?g = Inr dls"
         "avar (bold_ttfont\<lparr>avar := Some [(''wght'', [(- 1, - 1), (0, 0), (1, 1)])]\<rparr>)
            = Some segs"
         "map_of segs ''wght'' = Some curve" "0 \<in> fst ` set curve"
      and agree: "(\<forall>nm cur srng c dl d.
                (nm, cur) \<in> set (get_gvar_instance_locations ?g)
                \<and> map_of sav ''wght'' = Some srng \<and> map_of cur ''wght'' = Some c
                \<and> map_of dls nm = Some dl \<and> map_of dl ''wght'' = Some d
                \<and> defaultNormalizedValue wght_range d = Inr 0
                \<longrightarrow> defaultNormalizedValue srng c = Inr 0)
             \<longrightarrow> map_of curve 0 = Some 0"
      by blast
    from f(1) have sav: "sav = [(''wght'', wght_range)]"
      by (simp add: bold_source_axes_values)
    have "\<forall>nm cur srng c dl d.
                (nm, cur) \<in> set (get_gvar_instance_locations ?g)
                \<and> map_of sav ''wght'' = Some srng \<and> map_of cur ''wght'' = Some c
                \<and> map_of dls nm = Some dl \<and> map_of dl ''wght'' = Some d
                \<and> defaultNormalizedValue wght_range d = Inr 0
                \<longrightarrow> defaultNormalizedValue srng c = Inr 0"
      by (auto simp: sav bold_current_locations wght_400)
    with agree have "map_of curve 0 = Some 0" by blast
    with f show ?thesis by blast
  qed
  have second: "\<exists>segs curve.
       avar (bold_ttfont\<lparr>avar := Some [(''wght'', [(- 1, - 1), (0, 3 / 5), (1, 1)])]\<rparr>) = Some segs
     \<and> map_of segs ''wght'' = Some curve \<and> 0 \<in> fst ` set curve
     \<and> map_of curve 0 = Some (3 / 5)"
  proof -
    let ?g = "bold_gsfont 700 400"
    from create_avar_anchors[OF bold_700_400 axis a]
    obtain sav dls segs curve where
      f: "get_source_axes_values ?g = Inr sav" "get_instance_locations ?g = Inr dls"
         "avar (bold_ttfont\<lparr>avar := Some [(''wght'', [(- 1, - 1), (0, 3 / 5), (1, 1)])]\<rparr>)
            = Some segs"
         "map_of segs ''wght'' = Some curve" "0 \<in> fst ` set curve"
      and over: "\<forall>j nm cur srng c dl d val.
                j < length (get_gvar_instance_locations ?g)
                \<and> get_gvar_instance_locations ?g ! j = (nm, cur)
                \<and> map_of sav ''wght'' = Some srng \<and> map_of cur ''wght'' = Some c
                \<and> map_of dls nm = Some dl \<and> map_of dl ''wght'' = Some d
                \<and> defaultNormalizedValue wght_range d = Inr 0
                \<and> defaultNormalizedValue srng c = Inr val
                \<and> (\<forall>j' nm' cur' dl' d'.
                      j < j' \<and> j' < length (get_gvar_instance_locations ?g)
                      \<and> get_gvar_instance_locations ?g ! j' = (nm', cur')
                      \<and> map_of dls nm' = Some dl' \<and> map_of dl' ''wght'' = Some d'
                      \<longrightarrow> defaultNormalizedValue wght_range d' \<noteq> Inr 0)
                \<longrightarrow> map_of curve 0 = Some val"
      by blast
    from f(1) have sav: "sav = [(''wght'', wght_range)]"
      by (simp add: bold_source_axes_values)
    from f(2) have dls: "dls = [(''Bold'', [(''wght'', 400)])]"
      by (simp add: bold_desired_locations)
    from over[rule_format, of 0 "''Bold''" "[(''wght'', 700)]" wght_range 700
                "[(''wght'', 400)]" 400 "3 / 5"]
    have "map_of curve 0 = Some (3 / 5)"
      by (simp add: sav dls bold_current_locations wght_400 wght_700)
    with f show ?thesis by blast
  qed
  from first second show ?thesis by (rule conjI)
qed

text \<open>With desired location 400, the binary's default, and current location 700 the
  instance's point is \<open>0 \<mapsto> 0.6\<close>; it replaces the anchor \<open>0 \<mapsto> 0\<close>.\<close>

theorem create_avar_anchors_counterexample:
  "get_gvar_instance_locations (bold_gsfont 700 400) = [(''Bold'', [(''wght'', 700)])]
   \<and> get_instance_locations (bold_gsfont 700 400) = Inr [(''Bold'', [(''wght'', 400)])]
   \<and> create_avar bold_ttfont (bold_gsfont 700 400) True
        = Inr (bold_ttfont\<lparr>avar := Some [(''wght'', [(- 1, - 1), (0, 3 / 5), (1, 1)])]\<rparr>)
   \<and> dict_get ([(- 1, - 1), (0, 3 / 5), (1, 1)] :: (real \<times> real) list) 0 = Inr (3 / 5)
   \<and> (3 / 5 :: real) \<noteq> 0"
  by (simp add: bold_current_locations bold_desired_locations bold_700_400 dict_get_def)

text \<open>Claim C5, as the code has it. If on an axis of the binary the normalized
  project-side current location of every instance equals its normalized binary-side
  desired location, then the curve that a successful \<^verbatim>\<open>create_avar\<close> builds for that
  axis has pairwise distinct keys, and its entries are exactly the identity points
  \<open>k \<mapsto> k\<close> for \<open>k\<close> among -1, 0, 1 and the instances' normalized desired locations
  on that axis. The instances' points stay in the curve: it is the three anchors
  alone only when every instance normalizes to an anchor key.\<close>

theorem create_avar_identity:
  assumes run: "create_avar t g vb = Inr t'"
    and axis: "(tag, rng) \<in> set (get_axes_values t)"
    and sav: "get_source_axes_values g = Inr sav"
    and dls: "get_instance_locations g = Inr dls"
    and same: "\<forall>srng nm cur c dl d.
        map_of sav tag = Some srng
        \<and> (nm, cur) \<in> set (get_gvar_instance_locations g) \<and> map_of cur tag = Some c
        \<and> map_of dls nm = Some dl \<and> map_of dl tag = Some d
        \<longrightarrow> defaultNormalizedValue srng c = defaultNormalizedValue rng d"
  shows "\<exists>segs curve. avar t' = Some segs \<and> map_of segs tag = Some curve
       \<and> distinct (map fst curve)
       \<and> set curve = (\<lambda>k. (k, k)) `
            ({- 1, 0, 1} \<union>
             {key. \<exists>nm cur dl d. (nm, cur) \<in> set (get_gvar_instance_locations g)
                     \<and> map_of dls nm = Some dl \<and> map_of dl tag = Some d
                     \<and> defaultNormalizedValue rng d = Inr key})"
proof -
  let ?cls = "get_gvar_instance_locations g"
  let ?anchors = "[(-1, -1), (0, 0), (1, 1)] :: (real \<times> real) list"
  let ?K = "{key. \<exists>nm cur dl d. (nm, cur) \<in> set ?cls
                     \<and> map_of dls nm = Some dl \<and> map_of dl tag = Some d
                     \<and> defaultNormalizedValue rng d = Inr key}"
  let ?curve = "\<lambda>pts. dict_sets ?anchors pts"
  from create_avar_points[OF run axis] sav dls obtain segs pts where
    s: "avar t' = Some segs" "map_of segs tag = Some (?curve pts)"
    and len: "length pts = length ?cls"
    and pt: "\<forall>n<length ?cls.
           \<exists>srng c dl d. map_of sav tag = Some srng
             \<and> map_of (snd (?cls ! n)) tag = Some c
             \<and> map_of dls (fst (?cls ! n)) = Some dl
             \<and> map_of dl tag = Some d
             \<and> defaultNormalizedValue rng d = Inr (fst (pts ! n))
             \<and> defaultNormalizedValue srng c = Inr (snd (pts ! n))" by auto
  have ident: "\<forall>(k, v)\<in>set pts. k = v"
  proof (clarify)
    fix k v assume "(k, v) \<in> set pts"
    then obtain n where n: "n < length pts" "pts ! n = (k, v)"
      by (auto simp: in_set_conv_nth)
    with len have nl: "n < length ?cls" by simp
    from pt[rule_format, OF nl] n obtain srng c dl d where
      d: "map_of sav tag = Some srng" "map_of (snd (?cls ! n)) tag = Some c"
         "map_of dls (fst (?cls ! n)) = Some dl" "map_of dl tag = Some d"
         "defaultNormalizedValue rng d = Inr k" "defaultNormalizedValue srng c = Inr v"
      by auto
    have "(fst (?cls ! n), snd (?cls ! n)) \<in> set ?cls" using nl by simp
    with same[rule_format, of srng "fst (?cls ! n)" "snd (?cls ! n)" c dl d] d
    show "k = v" by simp
  qed
  have keys: "fst ` set pts = ?K"
  proof (intro equalityI subsetI)
    fix k assume "k \<in> fst ` set pts"
    then obtain n where n: "n < length pts" "fst (pts ! n) = k"
      by (auto simp: in_set_conv_nth)
    with len have nl: "n < length ?cls" by simp
    from pt[rule_format, OF nl] n obtain dl d where
      "map_of dls (fst (?cls ! n)) = Some dl" "map_of dl tag = Some d"
      "defaultNormalizedValue rng d = Inr k" by auto
    moreover have "(fst (?cls ! n), snd (?cls ! n)) \<in> set ?cls" using nl by simp
    ultimately show "k \<in> ?K" by blast
  next
    fix k assume "k \<in> ?K"
    then obtain nm cur dl d where
      k: "(nm, cur) \<in> set ?cls" "map_of dls nm = Some dl" "map_of dl tag = Some d"
         "defaultNormalizedValue rng d = Inr k" by blast
    from k(1) obtain n where n: "n < length ?cls" "?cls ! n = (nm, cur)"
      by (auto simp: in_set_conv_nth)
    from pt[rule_format, OF n(1)] n(2) k have "fst (pts ! n) = k" by auto
    moreover have "pts ! n \<in> set pts" using n(1) len by simp
    ultimately show "k \<in> fst ` set pts" by force
  qed
  have allid: "\<forall>(k, v)\<in>set (?curve pts). k = v"
    using set_dict_sets[of ?anchors pts] ident by auto
  have ks: "fst ` set (?curve pts) = {- 1, 0, 1} \<union> ?K"
    by (simp add: keys_dict_sets keys insert_commute)
  have "set (?curve pts) = (\<lambda>k. (k, k)) ` fst ` set (?curve pts)"
    using allid by force
  with ks have entries: "set (?curve pts) = (\<lambda>k. (k, k)) ` ({- 1, 0, 1} \<union> ?K)"
    by simp
  have dist: "distinct (map fst (?curve pts))"
    by (rule distinct_dict_sets) simp
  from s dist entries show ?thesis by blast
qed

text \<open>Current and desired location both 250 on the weight range: the curve holds the
  three anchors and the instance's point \<open>-0.5 \<mapsto> -0.5\<close>.\<close>

theorem create_avar_identity_witness:
  "\<exists>segs curve.
      avar (bold_ttfont\<lparr>avar := Some [(''wght'', [(- 1, - 1), (0, 0), (1, 1), (- 1 / 2, - 1 / 2)])]\<rparr>)
        = Some segs
    \<and> map_of segs ''wght'' = Some curve \<and> distinct (map fst curve)
    \<and> (- 1, - 1) \<in> set curve \<and> (0, 0) \<in> set curve \<and> (1, 1) \<in> set curve
    \<and> (- 1 / 2, - 1 / 2) \<in> set curve"
proof -
  let ?g = "bold_gsfont 250 250"
  have axis: "(''wght'', wght_range) \<in> set (get_axes_values bold_ttfont)"
    by (simp add: bold_axes_values)
  have same: "\<forall>srng nm cur c dl d.
        map_of [(''wght'', wght_range)] ''wght'' = Some srng
        \<and> (nm, cur) \<in> set (get_gvar_instance_locations ?g) \<and> map_of cur ''wght'' = Some c
        \<and> map_of [(''Bold'', [(''wght'', 250)])] nm = Some dl \<and> map_of dl ''wght'' = Some d
        \<longrightarrow> defaultNormalizedValue srng c = defaultNormalizedValue wght_range d"
    by (auto simp: bold_current_locations split: if_splits)
  let ?K = "{key. \<exists>nm cur dl d. (nm, cur) \<in> set (get_gvar_instance_locations ?g)
                     \<and> map_of [(''Bold'', [(''wght'', 250::real)])] nm = Some dl
                     \<and> map_of dl ''wght'' = Some d
                     \<and> defaultNormalizedValue wght_range d = Inr key}"
  from create_avar_identity[OF bold_250_250 axis bold_source_axes_values
         bold_desired_locations same]
  obtain segs curve where
    f: "avar (bold_ttfont\<lparr>avar := Some [(''wght'', [(- 1, - 1), (0, 0), (1, 1), (- 1 / 2, - 1 / 2)])]\<rparr>)
          = Some segs"
       "map_of segs ''wght'' = Some curve" "distinct (map fst curve)"
       "set curve = (\<lambda>k. (k, k)) ` ({- 1, 0, 1} \<union> ?K)"
    by blast
  have mem: "(k, k) \<in> set curve" if "k \<in> {- 1, 0, 1} \<union> ?K" for k
    unfolding f(4) using that by (rule imageI)
  have "defaultNormalizedValue wght_range 250 = Inr (- 1 / 2)" by (rule wght_250)
  then have "\<exists>nm cur dl d. (nm, cur) \<in> set (get_gvar_instance_locations ?g)
                     \<and> map_of [(''Bold'', [(''wght'', 250::real)])] nm = Some dl
                     \<and> map_of dl ''wght'' = Some d
                     \<and> defaultNormalizedValue wght_range d = Inr (- 1 / 2)"
    by (intro exI[of _ "''Bold''"] exI[of _ "[(''wght'', 250)]"] exI[of _ 250])
       (simp add: bold_current_locations)
  then have k: "- 1 / 2 \<in> {- 1, 0, 1} \<union> ?K" by simp
  have a: "(- 1::real) \<in> {- 1, 0, 1} \<union> ?K" "(0::real) \<in> {- 1, 0, 1} \<union> ?K"
    "(1::real) \<in> {- 1, 0, 1} \<union> ?K" by simp_all
  from mem[OF k] mem[OF a(1)] mem[OF a(2)] mem[OF a(3)] f(1,2,3)
  show ?thesis by (intro exI conjI)
qed

text \<open>In that run the curve has a fourth entry, \<open>-0.5 \<mapsto> -0.5\<close>, so it is not the
  three anchors alone.\<close>

theorem create_avar_identity_counterexample:
  "get_axes_values bold_ttfont = [(''wght'', wght_range)]
   \<and> get_source_axes_values (bold_gsfont 250 250) = Inr [(''wght'', wght_range)]
   \<and> get_gvar_instance_locations (bold_gsfont 250 250) = [(''Bold'', [(''wght'', 250)])]
   \<and> get_instance_locations (bold_gsfont 250 250) = Inr [(''Bold'', [(''wght'', 250)])]
   \<and> create_avar bold_ttfont (bold_gsfont 250 250) True
        = Inr (bold_ttfont\<lparr>avar := Some [(''wght'', [(- 1, - 1), (0, 0), (1, 1), (- 1 / 2, - 1 / 2)])]\<rparr>)
   \<and> ([(- 1, - 1), (0, 0), (1, 1), (- 1 / 2, - 1 / 2)] :: (real \<times> real) list)
        \<noteq> [(- 1, - 1), (0, 0), (1, 1)]
   \<and> dict_get ([(- 1, - 1), (0, 0), (1, 1), (- 1 / 2, - 1 / 2)] :: (real \<times> real) list) (- 1 / 2)
        = Inr (- 1 / 2)"
  by (simp add: bold_axes_values bold_source_axes_values bold_current_locations
        bold_desired_locations bold_250_250 dict_get_def)

text \<open>Claim C6, as the code has it. For the axis \<^verbatim>\<open>wght\<close> with binary-side range 100,
  400, 900 and project-side range 100, 400, 900 and the single instance \<^verbatim>\<open>Bold\<close>
  with current location 700 and desired location 700, \<^verbatim>\<open>create_avar\<close> builds the curve
  of the three anchors and the point \<open>0.6 \<mapsto> 0.6\<close>, since (700 - 400) / (900 - 400) is
  0.6; the specification's 0.5 is not what the normalizer returns.\<close>

theorem create_avar_bold_round_trip:
  assumes "fvar_axes t = [\<lparr>fvar_axisTag = ''wght'', minValue = 100, defaultValue = 400,
                            maxValue = 900\<rparr>]"
    and "get_source_axes_values g
           = Inr [(''wght'', \<lparr>ax_max = Fin 900, ax_min = Fin 100, ax_def = 400\<rparr>)]"
    and "axes g = [\<lparr>axis_name = weight, axisTag = ''wght''\<rparr>]"
    and "instances g = [\<lparr>instance_name = ''Bold'', instance_axes = [700],
                          axis_location = Some [(weight, 700)]\<rparr>]"
  shows "create_avar t g verbose
           = Inr (t\<lparr>avar := Some [(''wght'', [(- 1, - 1), (0, 0), (1, 1), (3 / 5, 3 / 5)])]\<rparr>)"
  using assms
  by (simp add: create_avar_def get_axes_values_def get_gvar_instance_locations_def
        gvar_instance_location_def get_instance_locations_def dict_of_def dict_sets_def
        dict_get_def instance_point_def defaultNormalizedValue_def)

text \<open>The project \<open>bold_gsfont 700 700\<close> with masters at 100, 400 and 900 is such a
  project.\<close>

theorem create_avar_bold_round_trip_witness:
  "create_avar bold_ttfont (bold_gsfont 700 700) False
     = Inr (bold_ttfont\<lparr>avar := Some [(''wght'', [(- 1, - 1), (0, 0), (1, 1), (3 / 5, 3 / 5)])]\<rparr>)"
proof -
  have 1: "fvar_axes bold_ttfont = [\<lparr>fvar_axisTag = ''wght'', minValue = 100,
             defaultValue = 400, maxValue = 900\<rparr>]"
    by (simp add: bold_ttfont_def)
  have 2: "get_source_axes_values (bold_gsfont 700 700)
             = Inr [(''wght'', \<lparr>ax_max = Fin 900, ax_min = Fin 100, ax_def = 400\<rparr>)]"
    using bold_source_axes_values by (simp add: wght_range_def)
  have 3: "axes (bold_gsfont 700 700) = [\<lparr>axis_name = ''Weight'', axisTag = ''wght''\<rparr>]"
    by (simp add: bold_gsfont_def)
  have 4: "instances (bold_gsfont 700 700) = [\<lparr>instance_name = ''Bold'', instance_axes = [700],
             axis_location = Some [(''Weight'', 700)]\<rparr>]"
    by (simp add: bold_gsfont_def)
  show ?thesis by (rule create_avar_bold_round_trip[OF 1 2 3 4])
qed

text \<open>The curve of that run has no key 0.5 and does not contain the point
  \<open>0.5 \<mapsto> 0.5\<close>.\<close>

theorem create_avar_bold_round_trip_counterexample:
  "get_axes_values bold_ttfont = [(''wght'', wght_range)]
   \<and> wght_range = \<lparr>ax_max = Fin 900, ax_min = Fin 100, ax_def = 400\<rparr>
   \<and> get_source_axes_values (bold_gsfont 700 700) = Inr [(''wght'', wght_range)]
   \<and> get_gvar_instance_locations (bold_gsfont 700 700) = [(''Bold'', [(''wght'', 700)])]
   \<and> get_instance_locations (bold_gsfont 700 700) = Inr [(''Bold'', [(''wght'', 700)])]
   \<and> create_avar bold_ttfont (bold_gsfont 700 700) True
        = Inr (bold_ttfont\<lparr>avar := Some [(''wght'', [(- 1, - 1), (0, 0), (1, 1), (3 / 5, 3 / 5)])]\<rparr>)
   \<and> dict_get ([(- 1, - 1), (0, 0), (1, 1), (3 / 5, 3 / 5)] :: (real \<times> real) list) (1 / 2) = Inl KeyError
   \<and> (1 / 2, 1 / 2) \<notin> set ([(- 1, - 1), (0, 0), (1, 1), (3 / 5, 3 / 5)] :: (real \<times> real) list)"
  by (simp add: bold_axes_values bold_source_axes_values bold_current_locations
        bold_desired_locations dict_get_def create_avar_def bold_instances
        instance_point_def wght_700)
    (simp add: wght_range_def)

section \<open>Rewriting instance metadata\<close>



lemma coordinates_loop_ok:
  "map_of dls nm = Some dl \<Longrightarrow> set tags \<subseteq> dom (map_of dl) \<Longrightarrow> set tags \<subseteq> fst ` set coords
   \<Longrightarrow> \<exists>coords'. coordinates_loop dls nm tags coords = (None, coords')
         \<and> map fst coords' = map fst coords
         \<and> (\<forall>tag. map_of coords' tag
                    = (if tag \<in> set tags then map_of dl tag else map_of coords tag))"
proof (induction tags arbitrary: coords)
  case Nil
  then show ?case by simp
next
  case (Cons tag0 tags)
  from Cons.prems obtain v where v: "map_of dl tag0 = Some v" by auto
  let ?c = "dict_set coords tag0 v"
  have "set tags \<subseteq> fst ` set ?c" using Cons.prems(3) by (auto simp: keys_dict_set)
  with Cons.IH[OF Cons.prems(1), of ?c] Cons.prems(2) obtain coords' where
    r: "coordinates_loop dls nm tags ?c = (None, coords')"
       "map fst coords' = map fst ?c"
       "\<forall>tag. map_of coords' tag = (if tag \<in> set tags then map_of dl tag else map_of ?c tag)"
    by auto
  have "coordinates_loop dls nm (tag0 # tags) coords = (None, coords')"
    using r(1) v Cons.prems(1) by (simp add: dict_get_def)
  moreover have "map fst coords' = map fst coords"
    using r(2) Cons.prems(3) by (simp add: keys_dict_set_existing)
  moreover have "\<forall>tag. map_of coords' tag
                    = (if tag \<in> set (tag0 # tags) then map_of dl tag else map_of coords tag)"
    using r(3) v by (simp add: map_of_dict_set)
  ultimately show ?case by blast
qed



lemma fvar_instances_loop_ok:
  assumes "\<forall>inst\<in>set insts. \<exists>nm dl. get_name t (subfamilyNameID inst) = Inr nm
              \<and> map_of dls nm = Some dl \<and> fst ` set (coordinates inst) \<subseteq> dom (map_of dl)"
  shows "\<exists>insts'. fvar_instances_loop t dls insts = (None, insts')
     \<and> list_all2 (\<lambda>inst inst'.
           subfamilyNameID inst' = subfamilyNameID inst
         \<and> map fst (coordinates inst') = map fst (coordinates inst)
         \<and> (\<forall>nm dl tag. get_name t (subfamilyNameID inst) = Inr nm \<and> map_of dls nm = Some dl
                \<and> tag \<in> fst ` set (coordinates inst)
              \<longrightarrow> map_of dl tag \<noteq> None \<and> map_of (coordinates inst') tag = map_of dl tag))
         insts insts'"
  using assms
proof (induction insts)
  case Nil
  then show ?case by simp
next
  case (Cons inst insts)
  from Cons.prems obtain nm dl where
    n: "get_name t (subfamilyNameID inst) = Inr nm" "map_of dls nm = Some dl"
       "fst ` set (coordinates inst) \<subseteq> dom (map_of dl)" by auto
  from coordinates_loop_ok[OF n(2), of "map fst (coordinates inst)" "coordinates inst"] n(3)
  obtain coords' where
    c: "coordinates_loop dls nm (map fst (coordinates inst)) (coordinates inst) = (None, coords')"
       "map fst coords' = map fst (coordinates inst)"
       "\<forall>tag. map_of coords' tag = (if tag \<in> set (map fst (coordinates inst))
                                    then map_of dl tag else map_of (coordinates inst) tag)"
    by auto
  from Cons.IH Cons.prems obtain insts' where
    r: "fvar_instances_loop t dls insts = (None, insts')"
    and all: "list_all2 (\<lambda>inst inst'.
           subfamilyNameID inst' = subfamilyNameID inst
         \<and> map fst (coordinates inst') = map fst (coordinates inst)
         \<and> (\<forall>nm dl tag. get_name t (subfamilyNameID inst) = Inr nm \<and> map_of dls nm = Some dl
                \<and> tag \<in> fst ` set (coordinates inst)
              \<longrightarrow> map_of dl tag \<noteq> None \<and> map_of (coordinates inst') tag = map_of dl tag))
         insts insts'" by auto
  have "fvar_instances_loop t dls (inst # insts)
          = (None, inst\<lparr>coordinates := coords'\<rparr> # insts')"
    using n(1) c(1) r by simp
  moreover have "\<forall>nm' dl' tag. get_name t (subfamilyNameID inst) = Inr nm'
        \<and> map_of dls nm' = Some dl' \<and> tag \<in> fst ` set (coordinates inst)
      \<longrightarrow> map_of dl' tag \<noteq> None \<and> map_of coords' tag = map_of dl' tag"
    using n c(3) by auto
  ultimately show ?case using all c(2) by auto
qed

lemma fvar_instances_loop_length:
  "length (snd (fvar_instances_loop t dls insts)) = length insts"
  by (induction insts) (auto split: sum.splits prod.splits option.splits)

lemma fvar_instances_loop_prefix:
  assumes "j < length insts"
    and "\<forall>i\<le>j. \<exists>nm dl. get_name t (subfamilyNameID (insts ! i)) = Inr nm
            \<and> map_of dls nm = Some dl
            \<and> fst ` set (coordinates (insts ! i)) \<subseteq> dom (map_of dl)"
  shows "\<exists>nm dl. get_name t (subfamilyNameID (insts ! j)) = Inr nm \<and> map_of dls nm = Some dl
     \<and> subfamilyNameID (snd (fvar_instances_loop t dls insts) ! j) = subfamilyNameID (insts ! j)
     \<and> map fst (coordinates (snd (fvar_instances_loop t dls insts) ! j))
         = map fst (coordinates (insts ! j))
     \<and> (\<forall>tag\<in>fst ` set (coordinates (insts ! j)).
           map_of dl tag \<noteq> None
         \<and> map_of (coordinates (snd (fvar_instances_loop t dls insts) ! j)) tag = map_of dl tag)"
  using assms
proof (induction insts arbitrary: j)
  case Nil
  then show ?case by simp
next
  case (Cons inst insts)
  from Cons.prems(2)[rule_format, of 0] obtain nm dl where
    n: "get_name t (subfamilyNameID inst) = Inr nm" "map_of dls nm = Some dl"
       "fst ` set (coordinates inst) \<subseteq> dom (map_of dl)" by auto
  from coordinates_loop_ok[OF n(2), of "map fst (coordinates inst)" "coordinates inst"] n(3)
  obtain coords' where
    c: "coordinates_loop dls nm (map fst (coordinates inst)) (coordinates inst) = (None, coords')"
       "map fst coords' = map fst (coordinates inst)"
       "\<forall>tag. map_of coords' tag = (if tag \<in> set (map fst (coordinates inst))
                                    then map_of dl tag else map_of (coordinates inst) tag)"
    by auto
  obtain e rest' where r: "fvar_instances_loop t dls insts = (e, rest')"
    by (cases "fvar_instances_loop t dls insts")
  have res: "snd (fvar_instances_loop t dls (inst # insts)) = inst\<lparr>coordinates := coords'\<rparr> # rest'"
    using n(1) c(1) r by simp
  show ?case
  proof (cases j)
    case 0
    with n c(2,3) res show ?thesis by auto
  next
    case (Suc k)
    with Cons.prems have k: "k < length insts" by simp
    have pre: "\<forall>i\<le>k. \<exists>nm dl. get_name t (subfamilyNameID (insts ! i)) = Inr nm
            \<and> map_of dls nm = Some dl
            \<and> fst ` set (coordinates (insts ! i)) \<subseteq> dom (map_of dl)"
    proof (intro allI impI)
      fix i assume "i \<le> k"
      with Cons.prems(2)[rule_format, of "Suc i"] Suc
      show "\<exists>nm dl. get_name t (subfamilyNameID (insts ! i)) = Inr nm
            \<and> map_of dls nm = Some dl
            \<and> fst ` set (coordinates (insts ! i)) \<subseteq> dom (map_of dl)" by simp
    qed
    from Cons.IH[OF k pre] r res Suc show ?thesis by simp
  qed
qed


lemma stat_axes_loop_error:
  "stat_axes_loop dls nm nid items vals = (Some e, vals') \<Longrightarrow> e = KeyError"
  by (induction dls nm nid items vals rule: stat_axes_loop.induct)
     (auto simp: dict_get_def split: option.splits sum.splits)




text \<open>Without the \<^verbatim>\<open>STAT\<close> table, or without one of its two sub-records,
  \<^verbatim>\<open>update_stat\<close> fails before it changes anything.\<close>

lemma update_stat_without_table:
  "get_instance_locations g = Inr dls \<Longrightarrow> stat t = None
   \<Longrightarrow> update_stat t g = (Some KeyError, t)"
  by (simp add: update_stat_def)

lemma update_stat_without_array:
  "get_instance_locations g = Inr dls \<Longrightarrow> stat t = Some st
   \<Longrightarrow> DesignAxisRecord st = None \<or> AxisValueArray st = None
   \<Longrightarrow> update_stat t g = (Some AttributeError, t)"
  by (auto simp: update_stat_def split: option.splits)




text \<open>When every instance of the binary meets the condition, \<^verbatim>\<open>update_fvar\<close> returns
  normally.\<close>

lemma update_fvar_succeeds:
  assumes dls: "get_instance_locations g = Inr dls"
    and ok: "\<forall>inst\<in>set (fvar_instances t). \<exists>nm dl. get_name t (subfamilyNameID inst) = Inr nm
              \<and> map_of dls nm = Some dl \<and> fst ` set (coordinates inst) \<subseteq> dom (map_of dl)"
  shows "fst (update_fvar t g) = None"
  using fvar_instances_loop_ok[OF ok] by (auto simp: update_fvar_def dls)

text \<open>Claim C10, as the code has it. Let the desired locations of the project resolve.
  For every named instance of the binary's instance table, given that this instance
  and every instance before it in the table has a resolved name that matches a
  project instance whose declared axis-location mapping contains every axis tag of
  the binary instance's coordinates, \<^verbatim>\<open>update_fvar\<close> has overwritten each coordinate of
  that instance with the value the project declares for that instance and axis (the
  design-space value itself, not a normalized one) and has kept the instance's name
  id and coordinate keys, whether or not a later instance makes it fail. The
  condition on the instances before it cannot be dropped: the loop runs in table
  order and stops at the first instance that fails.\<close>

theorem update_fvar_overwrites:
  assumes dls: "get_instance_locations g = Inr dls"
    and j: "j < length (fvar_instances t)"
    and ok: "\<forall>i\<le>j. \<exists>nm dl. get_name t (subfamilyNameID (fvar_instances t ! i)) = Inr nm
            \<and> map_of dls nm = Some dl
            \<and> fst ` set (coordinates (fvar_instances t ! i)) \<subseteq> dom (map_of dl)"
  shows "\<exists>e insts' nm dl.
       update_fvar t g = (e, t\<lparr>fvar_instances := insts'\<rparr>)
     \<and> length insts' = length (fvar_instances t)
     \<and> get_name t (subfamilyNameID (fvar_instances t ! j)) = Inr nm \<and> map_of dls nm = Some dl
     \<and> subfamilyNameID (insts' ! j) = subfamilyNameID (fvar_instances t ! j)
     \<and> map fst (coordinates (insts' ! j)) = map fst (coordinates (fvar_instances t ! j))
     \<and> (\<forall>tag\<in>fst ` set (coordinates (fvar_instances t ! j)).
           map_of dl tag \<noteq> None \<and> map_of (coordinates (insts' ! j)) tag = map_of dl tag)"
proof -
  obtain e insts' where r: "fvar_instances_loop t dls (fvar_instances t) = (e, insts')"
    by (cases "fvar_instances_loop t dls (fvar_instances t)")
  then have u: "update_fvar t g = (e, t\<lparr>fvar_instances := insts'\<rparr>)"
    by (simp add: update_fvar_def dls)
  have len: "length insts' = length (fvar_instances t)"
    using fvar_instances_loop_length[of t dls "fvar_instances t"] r by simp
  from fvar_instances_loop_prefix[OF j ok] r obtain nm dl where
    "get_name t (subfamilyNameID (fvar_instances t ! j)) = Inr nm" "map_of dls nm = Some dl"
    "subfamilyNameID (insts' ! j) = subfamilyNameID (fvar_instances t ! j)"
    "map fst (coordinates (insts' ! j)) = map fst (coordinates (fvar_instances t ! j))"
    "\<forall>tag\<in>fst ` set (coordinates (fvar_instances t ! j)).
           map_of dl tag \<noteq> None \<and> map_of (coordinates (insts' ! j)) tag = map_of dl tag"
    by auto
  with u len show ?thesis by blast
qed

text \<open>The coordinate 700 of \<^verbatim>\<open>Bold\<close> becomes the declared 800 (whose normalized value
  would be 0.8).\<close>

theorem update_fvar_overwrites_witness:
  "\<exists>e insts'. update_fvar bold_ttfont (bold_gsfont 700 800)
              = (e, bold_ttfont\<lparr>fvar_instances := insts'\<rparr>)
         \<and> length insts' = 1
         \<and> subfamilyNameID (insts' ! 0) = 256
         \<and> map fst (coordinates (insts' ! 0)) = [''wght'']
         \<and> map_of (coordinates (insts' ! 0)) ''wght'' = Some 800"
proof -
  have j: "0 < length (fvar_instances bold_ttfont)" by (simp add: bold_ttfont_def)
  have ok: "\<forall>i\<le>0. \<exists>nm dl. get_name bold_ttfont (subfamilyNameID (fvar_instances bold_ttfont ! i)) = Inr nm
            \<and> map_of [(''Bold'', [(''wght'', 800::real)])] nm = Some dl
            \<and> fst ` set (coordinates (fvar_instances bold_ttfont ! i)) \<subseteq> dom (map_of dl)"
    by (simp add: bold_ttfont_def get_name_def)
  from update_fvar_overwrites[OF bold_desired_locations j ok]
  obtain e insts' nm dl where
    f: "update_fvar bold_ttfont (bold_gsfont 700 800)
          = (e, bold_ttfont\<lparr>fvar_instances := insts'\<rparr>)"
       "length insts' = length (fvar_instances bold_ttfont)"
       "get_name bold_ttfont (subfamilyNameID (fvar_instances bold_ttfont ! 0)) = Inr nm"
       "map_of [(''Bold'', [(''wght'', 800::real)])] nm = Some dl"
       "subfamilyNameID (insts' ! 0) = subfamilyNameID (fvar_instances bold_ttfont ! 0)"
       "map fst (coordinates (insts' ! 0)) = map fst (coordinates (fvar_instances bold_ttfont ! 0))"
       "\<forall>tag\<in>fst ` set (coordinates (fvar_instances bold_ttfont ! 0)).
           map_of dl tag \<noteq> None \<and> map_of (coordinates (insts' ! 0)) tag = map_of dl tag"
    by blast
  from f(3) have "nm = ''Bold''" by (simp add: bold_ttfont_def get_name_def)
  with f(4) have "dl = [(''wght'', 800)]" by simp
  with f(7) have "map_of (coordinates (insts' ! 0)) ''wght'' = Some 800"
    by (simp add: bold_ttfont_def)
  with f(1,2,5,6) show ?thesis by (auto simp: bold_ttfont_def)
qed

text \<open>In \<open>black_first_ttfont\<close> the instance \<^verbatim>\<open>Black\<close>, which the project does not have,
  comes first: \<^verbatim>\<open>update_fvar\<close> fails there, and \<^verbatim>\<open>Bold\<close>, which meets the condition by
  itself, keeps its coordinate 700.\<close>

theorem update_fvar_overwrites_counterexample:
  "get_instance_locations (bold_gsfont 700 800) = Inr [(''Bold'', [(''wght'', 800)])]
   \<and> fvar_instances black_first_ttfont ! 1
       = \<lparr>subfamilyNameID = 256, coordinates = [(''wght'', 700)]\<rparr>
   \<and> get_name black_first_ttfont 256 = Inr ''Bold''
   \<and> update_fvar black_first_ttfont (bold_gsfont 700 800) = (Some KeyError, black_first_ttfont)
   \<and> map_of (coordinates
        (fvar_instances (snd (update_fvar black_first_ttfont (bold_gsfont 700 800))) ! 1))
        ''wght'' = Some 700"
  by (simp add: bold_desired_locations black_first_update_fvar)
     (simp add: black_first_ttfont_def mismatch_ttfont_def get_name_def)

end
